theory Spec2Isabelle
  imports Complex_Main "HOL-Library.AList"
begin

section \<open>Gesture recognition and adaptive learning engine\<close>

text \<open>
  A shallow embedding of \<^verbatim>\<open>backend/app/services/ml_service.py\<close> (class
  \<^verbatim>\<open>MLService\<close>) and \<^verbatim>\<open>backend/app/services/learning_service.py\<close> (class
  \<^verbatim>\<open>LearningService\<close>).

  Conventions of the embedding:
  \<^item> In the feature extractor and the pose pre-check a Python float is an IEEE binary64
    number: a finite value is the real number it denotes, beside the two infinities and NaN
    (the sign of zero is not kept); the arithmetic rounds to nearest, ties to even, and
    \<^verbatim>\<open>**\<close> raises \<^verbatim>\<open>OverflowError\<close>. The probabilities of the classifier, the
    similarity of landmark sets and the statistics are over the real numbers.
  \<^item> A raised exception is the \<open>Inl\<close> of a sum; \<^verbatim>\<open>try/except\<close> is a case split on it.
  \<^item> The attribute dictionaries of the two services are maps, passed in and returned.
  \<^item> The Keras classifier, the fitted scaler, the functions \<^verbatim>\<open>np.dot\<close>,
    \<^verbatim>\<open>np.linalg.norm\<close> and \<^verbatim>\<open>np.arccos\<close>, the file system, the data base and the clock are
    not code of the repository: they are parameters of the model.
\<close>

subsection \<open>Exceptions and strings\<close>

datatype exn = Exception string | ValueError string | IndexError string | OverflowError string

fun str_exn :: "exn \<Rightarrow> string" where
  "str_exn (Exception m) = m"
| "str_exn (ValueError m) = m"
| "str_exn (IndexError m) = m"
| "str_exn (OverflowError m) = m"

definition digit_char :: "nat \<Rightarrow> char" where
  "digit_char d = ''0123456789'' ! d"

fun show_nat :: "nat \<Rightarrow> string" where
  "show_nat n = (if n < 10 then [digit_char n] else show_nat (n div 10) @ [digit_char (n mod 10)])"

declare show_nat.simps [simp del]

subsection \<open>Python floats\<close>

text \<open>
  Rounding of a real number to binary64, to nearest and ties to even, with gradual
  underflow (the unit in the last place is never below \<open>2 powi - 1074\<close>) and no bound above;
  \<open>fl\<close> adds the overflow to an infinity, which round-to-nearest takes from
  \<open>2 ^ 1024 - 2 ^ 970\<close> on.
\<close>

datatype pyfloat = Fin real | PInf | NInf | NaN

definition round_half_even :: "real \<Rightarrow> int" where
  "round_half_even y =
     (let f = \<lfloor>y\<rfloor>; r = y - of_int f
      in if r < 1 / 2 then f else if 1 / 2 < r then f + 1 else if even f then f else f + 1)"

definition ulp_exponent :: "real \<Rightarrow> int" where
  "ulp_exponent x = max (\<lfloor>log 2 \<bar>x\<bar>\<rfloor> - 52) (- 1074)"

definition rnd64 :: "real \<Rightarrow> real" where
  "rnd64 x =
     (if x = 0 then 0
      else of_int (round_half_even (x / 2 powi ulp_exponent x)) * 2 powi ulp_exponent x)"

definition overflow_threshold :: real where
  "overflow_threshold = 2 ^ 1024 - 2 ^ 970"

definition fl :: "real \<Rightarrow> pyfloat" where
  "fl x =
     (if overflow_threshold \<le> x then PInf
      else if x \<le> - overflow_threshold then NInf
      else Fin (rnd64 x))"

fun fneg :: "pyfloat \<Rightarrow> pyfloat" where
  "fneg (Fin a) = Fin (- a)"
| "fneg PInf = NInf"
| "fneg NInf = PInf"
| "fneg NaN = NaN"

fun fadd :: "pyfloat \<Rightarrow> pyfloat \<Rightarrow> pyfloat" where
  "fadd (Fin a) (Fin b) = fl (a + b)"
| "fadd NaN y = NaN"
| "fadd x NaN = NaN"
| "fadd PInf NInf = NaN"
| "fadd NInf PInf = NaN"
| "fadd PInf y = PInf"
| "fadd NInf y = NInf"
| "fadd x PInf = PInf"
| "fadd x NInf = NInf"

definition fsub :: "pyfloat \<Rightarrow> pyfloat \<Rightarrow> pyfloat" where
  "fsub x y = fadd x (fneg y)"

text \<open>An infinity with the sign of a finite factor, NaN for the factor zero.\<close>

definition signed_inf :: "real \<Rightarrow> pyfloat" where
  "signed_inf a = (if a = 0 then NaN else if 0 < a then PInf else NInf)"

fun fmul :: "pyfloat \<Rightarrow> pyfloat \<Rightarrow> pyfloat" where
  "fmul (Fin a) (Fin b) = fl (a * b)"
| "fmul NaN y = NaN"
| "fmul x NaN = NaN"
| "fmul PInf (Fin b) = signed_inf b"
| "fmul NInf (Fin b) = signed_inf (- b)"
| "fmul (Fin a) PInf = signed_inf a"
| "fmul (Fin a) NInf = signed_inf (- a)"
| "fmul PInf PInf = PInf"
| "fmul NInf NInf = PInf"
| "fmul PInf NInf = NInf"
| "fmul NInf PInf = NInf"

text \<open>
  The division of numpy scalars does not raise: a division by zero gives an infinity (of
  the sign of the dividend, the zero taken as positive) or NaN.
\<close>

fun fdiv :: "pyfloat \<Rightarrow> pyfloat \<Rightarrow> pyfloat" where
  "fdiv (Fin a) (Fin b) = (if b = 0 then signed_inf a else fl (a / b))"
| "fdiv NaN y = NaN"
| "fdiv x NaN = NaN"
| "fdiv (Fin a) PInf = Fin 0"
| "fdiv (Fin a) NInf = Fin 0"
| "fdiv PInf (Fin b) = (if 0 \<le> b then PInf else NInf)"
| "fdiv NInf (Fin b) = (if 0 \<le> b then NInf else PInf)"
| "fdiv PInf y = NaN"
| "fdiv NInf y = NaN"

fun fsqrt :: "pyfloat \<Rightarrow> pyfloat" where
  "fsqrt (Fin a) = (if a < 0 then NaN else fl (sqrt a))"
| "fsqrt PInf = PInf"
| "fsqrt NInf = NaN"
| "fsqrt NaN = NaN"

text \<open>The comparison \<^verbatim>\<open><\<close>: false whenever a NaN is compared.\<close>

fun flt :: "pyfloat \<Rightarrow> pyfloat \<Rightarrow> bool" where
  "flt (Fin a) (Fin b) = (a < b)"
| "flt NaN y = False"
| "flt x NaN = False"
| "flt x NInf = False"
| "flt PInf y = False"
| "flt NInf y = True"
| "flt x PInf = True"

text \<open>
  \<^verbatim>\<open>x ** 2\<close> on a Python float: \<^verbatim>\<open>float_pow\<close> returns an infinity or a NaN as it is,
  and raises \<^verbatim>\<open>OverflowError\<close> when the power of a finite number is infinite. The C
  function \<^verbatim>\<open>pow\<close> is taken to round the square correctly.
\<close>

definition overflow_error :: exn where
  "overflow_error = OverflowError (''(34, '' @ [CHR 0x27] @ ''Numerical result out of range'' @ [CHR 0x27] @ '')'')"

fun pow2 :: "pyfloat \<Rightarrow> exn + pyfloat" where
  "pow2 (Fin a) = (if overflow_threshold \<le> a * a then Inl overflow_error else Inr (Fin (rnd64 (a * a))))"
| "pow2 PInf = Inr PInf"
| "pow2 NInf = Inr PInf"
| "pow2 NaN = Inr NaN"

text \<open>\<^verbatim>\<open>np.clip\<close> with finite bounds: a NaN stays.\<close>

fun np_clip :: "pyfloat \<Rightarrow> real \<Rightarrow> real \<Rightarrow> pyfloat" where
  "np_clip (Fin v) lo hi = Fin (min (max v lo) hi)"
| "np_clip PInf lo hi = Fin hi"
| "np_clip NInf lo hi = Fin lo"
| "np_clip NaN lo hi = NaN"

text \<open>
  The functions of numpy whose rounding the source does not fix (the order of the sum in
  \<^verbatim>\<open>np.dot\<close> and \<^verbatim>\<open>np.linalg.norm\<close>, the C library behind \<^verbatim>\<open>np.arccos\<close>).
\<close>

type_synonym fvec = "pyfloat \<times> pyfloat \<times> pyfloat"

record numpy =
  np_dot :: "fvec \<Rightarrow> fvec \<Rightarrow> pyfloat"
  np_linalg_norm :: "fvec \<Rightarrow> pyfloat"
  np_arccos :: "pyfloat \<Rightarrow> pyfloat"

text \<open>A loop that appends one result after the other and stops at the first exception.\<close>

fun collect :: "(exn + 'a) list \<Rightarrow> exn + 'a list" where
  "collect [] = Inr []"
| "collect (Inl e # rs) = Inl e"
| "collect (Inr v # rs) = (case collect rs of Inl e \<Rightarrow> Inl e | Inr vs \<Rightarrow> Inr (v # vs))"

subsection \<open>Landmarks and the feature extractor\<close>

text \<open>
  A landmark is a \<^verbatim>\<open>Dict[str, float]\<close> of finite numbers, each the real number that the
  float denotes; \<^verbatim>\<open>lm.get("x", 0)\<close> reads a key with default 0. The operations of the
  extractor round their results.
\<close>

type_synonym landmark = "string \<rightharpoonup> real"

type_synonym coord = "real \<times> real \<times> real"

definition lm_get :: "landmark \<Rightarrow> string \<Rightarrow> real" where
  "lm_get lm k = (case lm k of Some v \<Rightarrow> v | None \<Rightarrow> 0)"

definition coords_of :: "landmark list \<Rightarrow> coord list" where
  "coords_of landmarks = map (\<lambda>lm. (lm_get lm ''x'', lm_get lm ''y'', lm_get lm ''z'')) landmarks"

definition finger_tips :: "nat list" where
  "finger_tips = [4, 8, 12, 16, 20]"

definition finger_bases :: "nat list" where
  "finger_bases = [3, 6, 10, 14, 18]"

definition finger_chains :: "nat list list" where
  "finger_chains = [[1, 2, 3, 4], [5, 6, 7, 8], [9, 10, 11, 12], [13, 14, 15, 16], [17, 18, 19, 20]]"

text \<open>The difference of two points, coordinate by coordinate, in floats.\<close>

definition vsub :: "coord \<Rightarrow> coord \<Rightarrow> fvec" where
  "vsub a b = (case a of (a0, a1, a2) \<Rightarrow> case b of (b0, b1, b2) \<Rightarrow>
     (fsub (Fin a0) (Fin b0), fsub (Fin a1) (Fin b1), fsub (Fin a2) (Fin b2)))"

text \<open>
  \<^verbatim>\<open>np.sqrt((a[0] - b[0])**2 + (a[1] - b[1])**2 + (a[2] - b[2])**2)\<close> on Python floats: each
  square may raise.
\<close>

definition euclid :: "coord \<Rightarrow> coord \<Rightarrow> exn + pyfloat" where
  "euclid a b = (case vsub a b of (d0, d1, d2) \<Rightarrow>
     (case pow2 d0 of
        Inl e \<Rightarrow> Inl e
      | Inr s0 \<Rightarrow>
        (case pow2 d1 of
           Inl e \<Rightarrow> Inl e
         | Inr s1 \<Rightarrow>
           (case pow2 d2 of
              Inl e \<Rightarrow> Inl e
            | Inr s2 \<Rightarrow> Inr (fsqrt (fadd (fadd s0 s1) s2))))))"

text \<open>The constant \<^verbatim>\<open>1e-6\<close> is the binary64 number next to it.\<close>

definition float_1e_6 :: real where
  "float_1e_6 = 4722366482869645 / 2 ^ 72"

definition joint_angle :: "numpy \<Rightarrow> coord \<Rightarrow> coord \<Rightarrow> coord \<Rightarrow> pyfloat" where
  "joint_angle np p1 p2 p3 =
     (let v1 = vsub p1 p2;
          v2 = vsub p3 p2;
          cos_angle = fdiv (np_dot np v1 v2)
                        (fadd (fmul (np_linalg_norm np v1) (np_linalg_norm np v2)) (Fin float_1e_6))
      in np_arccos np (np_clip cos_angle (- 1) 1))"

definition wrist_relative :: "coord list \<Rightarrow> pyfloat list" where
  "wrist_relative coords =
     (let wrist = coords ! 0
      in concat (map (\<lambda>coord. case vsub coord wrist of (d0, d1, d2) \<Rightarrow> [d0, d1, d2]) coords))"

definition tip_base_distances :: "coord list \<Rightarrow> exn + pyfloat list" where
  "tip_base_distances coords =
     collect (map (\<lambda>(tip, base). euclid (coords ! tip) (coords ! base)) (zip finger_tips finger_bases))"

definition tip_wrist_distances :: "coord list \<Rightarrow> exn + pyfloat list" where
  "tip_wrist_distances coords =
     (let palm_center = coords ! 0
      in collect (map (\<lambda>tip_idx. euclid (coords ! tip_idx) palm_center) finger_tips))"

definition chain_angles :: "numpy \<Rightarrow> coord list \<Rightarrow> nat list \<Rightarrow> pyfloat list" where
  "chain_angles np coords chain =
     map (\<lambda>i. joint_angle np (coords ! (chain ! i)) (coords ! (chain ! (i + 1))) (coords ! (chain ! (i + 2))))
       [0 ..< length chain - 2]"

definition joint_angles :: "numpy \<Rightarrow> coord list \<Rightarrow> pyfloat list" where
  "joint_angles np coords = concat (map (chain_angles np coords) finger_chains)"

text \<open>
  The list \<^verbatim>\<open>features\<close> before the padding: the two loops over the distances raise before
  the angles are computed.
\<close>

definition raw_features :: "numpy \<Rightarrow> coord list \<Rightarrow> exn + pyfloat list" where
  "raw_features np coords =
     (case tip_base_distances coords of
        Inl e \<Rightarrow> Inl e
      | Inr tip_base \<Rightarrow>
        (case tip_wrist_distances coords of
           Inl e \<Rightarrow> Inl e
         | Inr tip_wrist \<Rightarrow>
           Inr (wrist_relative coords @ tip_base @ tip_wrist @ joint_angles np coords)))"

text \<open>The loop \<^verbatim>\<open>while len(features) < 78: features.append(0.0)\<close>.\<close>

function pad78 :: "pyfloat list \<Rightarrow> pyfloat list" where
  "pad78 features = (if length features < 78 then pad78 (features @ [Fin 0]) else features)"
  by pat_completeness auto
termination
  by (relation "measure (\<lambda>features. 78 - length features)") auto

declare pad78.simps [simp del]

definition extract_features_fixed :: "numpy \<Rightarrow> landmark list \<Rightarrow> exn + pyfloat list" where
  "extract_features_fixed np landmarks =
     (if length landmarks \<noteq> 21
      then Inl (ValueError (''Expected 21 landmarks, got '' @ show_nat (length landmarks)))
      else (case raw_features np (coords_of landmarks) of
              Inl e \<Rightarrow> Inl e
            | Inr features \<Rightarrow> Inr (take 78 (pad78 features))))"

text \<open>
  Moving every point of a landmark set by one offset: with the exact sums as the new
  coordinates, and with the sums that binary64 addition gives (when none overflows).
\<close>

definition translate :: "coord \<Rightarrow> landmark \<Rightarrow> landmark" where
  "translate d lm = (case d of (dx, dy, dz) \<Rightarrow>
     lm(''x'' \<mapsto> lm_get lm ''x'' + dx, ''y'' \<mapsto> lm_get lm ''y'' + dy, ''z'' \<mapsto> lm_get lm ''z'' + dz))"

definition translate_float :: "coord \<Rightarrow> landmark \<Rightarrow> landmark" where
  "translate_float d lm = (case d of (dx, dy, dz) \<Rightarrow>
     lm(''x'' \<mapsto> rnd64 (lm_get lm ''x'' + dx), ''y'' \<mapsto> rnd64 (lm_get lm ''y'' + dy),
        ''z'' \<mapsto> rnd64 (lm_get lm ''z'' + dz)))"

subsection \<open>Pose pre-check and rejection signals\<close>

text \<open>
  \<^verbatim>\<open>_is_valid_hand_pose\<close>: the first loop only executes \<^verbatim>\<open>continue\<close>; an index out of
  range and an \<^verbatim>\<open>OverflowError\<close> of a square are caught by
  \<^verbatim>\<open>except Exception: return True\<close>. The constant \<^verbatim>\<open>0.01\<close> is the binary64 number next
  to it.
\<close>

definition float_0_01 :: real where
  "float_0_01 = 5764607523034235 / 2 ^ 59"

definition is_valid_hand_pose :: "landmark list \<Rightarrow> bool" where
  "is_valid_hand_pose landmarks =
     (let coords = coords_of landmarks
      in if length coords < 21 then True
         else
           (let wrist = coords ! 0;
                fingertips = [coords ! 4, coords ! 8, coords ! 12, coords ! 16, coords ! 20]
            in case collect (map (\<lambda>tip. euclid tip wrist) fingertips) of
                 Inl e \<Rightarrow> True
               | Inr dists \<Rightarrow>
                 (let valid_fingertips =
                        length (filter (\<lambda>dist. flt (Fin float_0_01) dist \<and> flt dist (Fin 1)) dists)
                  in valid_fingertips \<ge> 2)))"

text \<open>
  \<^verbatim>\<open>_calculate_entropy_threshold\<close>. The entries of a probability vector are not negative,
  so that the logarithm is taken of positive numbers only; \<^verbatim>\<open>np.log\<close> of a number that is
  not positive is outside the model.
\<close>

definition calculate_entropy_threshold :: "real list \<Rightarrow> real" where
  "calculate_entropy_threshold probabilities =
     (let probabilities = map (\<lambda>p. p + 1 / 10 ^ 10) probabilities
      in - sum_list (map (\<lambda>p. p * ln p) probabilities))"

text \<open>\<^verbatim>\<open>np.max\<close> and \<^verbatim>\<open>np.argmax\<close> (first index of the maximum) of a non-empty vector.\<close>

definition np_max :: "real list \<Rightarrow> real" where
  "np_max xs = fold max (tl xs) (hd xs)"

fun argmax_from :: "real list \<Rightarrow> nat \<Rightarrow> nat \<Rightarrow> real \<Rightarrow> nat" where
  "argmax_from [] i best_i best = best_i"
| "argmax_from (x # xs) i best_i best =
     (if best < x then argmax_from xs (Suc i) i x else argmax_from xs (Suc i) best_i best)"

definition np_argmax :: "real list \<Rightarrow> nat" where
  "np_argmax xs = argmax_from (tl xs) 1 0 (hd xs)"

subsection \<open>The ML service: cache, artifacts on disk, prediction\<close>

text \<open>
  \<^verbatim>\<open>model.predict\<close> on the features: the cast to float32 of line 323, which does not
  raise, is part of this parameter and of \<^verbatim>\<open>transform\<close> below.
\<close>

type_synonym keras_model = "pyfloat list \<Rightarrow> exn + real list"

text \<open>The attribute \<^verbatim>\<open>scale_\<close> (absent or \<^verbatim>\<open>None\<close> is \<open>None\<close>) and the method \<^verbatim>\<open>transform\<close>.\<close>

record scaler =
  scaler_scale :: "real list option"
  transform :: "pyfloat list \<Rightarrow> exn + pyfloat list"

datatype validator = Validator
  (gesture_centroids: "(string \<times> real list) list")
  (gesture_std: "(string \<times> real list) list")
  (global_mean: "real list")
  (global_std: "real list")

record metrics =
  accuracy :: real
  totalSamples :: nat
  trainingTime :: nat
  trainingHistory :: "(nat \<times> real \<times> real \<times> real \<times> real) list"
  confusionMatrix :: "(string \<times> real \<times> real \<times> real \<times> int) list"
  classDistribution :: "(string \<times> int) list"

text \<open>
  A file of a model directory is absent (\<open>None\<close>) or holds what loading it yields:
  the stored object, or the exception a damaged file raises.
\<close>

record model_dir =
  model_h5 :: "(exn + keras_model) option"
  scaler_pkl :: "(exn + scaler) option"
  validator_pkl :: "(exn + validator) option"
  label_encoder_pkl :: "(exn + string list) option"
  label_encoder_json :: "(exn + string list) option"
  metrics_json :: "(exn + metrics) option"

type_synonym disk = "string \<rightharpoonup> model_dir"

record ml_service =
  models :: "string \<rightharpoonup> keras_model"
  label_encoders :: "string \<rightharpoonup> string list"
  scalers :: "string \<rightharpoonup> scaler"
  gesture_validators :: "string \<rightharpoonup> validator option"

definition MLService_init :: ml_service where
  "MLService_init = \<lparr>models = Map.empty, label_encoders = Map.empty, scalers = Map.empty,
     gesture_validators = Map.empty\<rparr>"

definition MODEL_DIR :: string where
  "MODEL_DIR = ''models''"

text \<open>\<^verbatim>\<open>os.path.normpath\<close> is taken as the identity (model identifiers without dots or slashes).\<close>

definition get_safe_model_path :: "string \<Rightarrow> string" where
  "get_safe_model_path model_id = MODEL_DIR @ ''/'' @ model_id"

definition create_default_scaler :: scaler where
  "create_default_scaler = \<lparr>scaler_scale = Some (replicate 78 1), transform = (\<lambda>x. Inr x)\<rparr>"

record prediction_result =
  pr_prediction :: string
  pr_confidence :: real
  pr_probabilities :: "(string \<times> real) list"

definition NO_GESTURE :: string where
  "NO_GESTURE = ''NO_GESTURE''"

definition no_clear_gesture :: string where
  "no_clear_gesture = ''No se detecta se'' @ [CHR 0xC3, CHR 0xB1] @ ''a clara''"

definition hand_not_detected :: string where
  "hand_not_detected = ''Mano no detectada correctamente''"

text \<open>
  A dict comprehension: a later pair with a key already present overwrites the value
  and keeps the key's place.
\<close>

definition py_dict :: "(string \<times> 'v) list \<Rightarrow> (string \<times> 'v) list" where
  "py_dict kvs = foldl (\<lambda>d (k, v). AList.update k v d) [] kvs"

definition filtered_probs :: "string list \<Rightarrow> real list \<Rightarrow> (string \<times> real) list" where
  "filtered_probs class_names predictions =
     py_dict (filter (\<lambda>(label, prob). label \<noteq> NO_GESTURE) (zip class_names predictions))"

text \<open>Lines 348 to 390 of \<^verbatim>\<open>predict\<close>: the decision on the classifier's output.\<close>

definition decide :: "string list \<Rightarrow> real list \<Rightarrow> exn + prediction_result" where
  "decide class_names predictions =
     (if predictions = []
      then Inl (ValueError ''zero-size array to reduction operation maximum which has no identity'')
      else
        (let max_confidence = np_max predictions;
             predicted_class = np_argmax predictions
         in if length class_names \<le> predicted_class
            then Inl (IndexError ''list index out of range'')
            else
              (let predicted_label = class_names ! predicted_class;
                   confidence_threshold = 1 / 2;
                   entropy_threshold = calculate_entropy_threshold predictions
               in if max_confidence < confidence_threshold \<or> entropy_threshold > 5 / 2
                     \<or> predicted_label = NO_GESTURE
                  then Inr \<lparr>pr_prediction = no_clear_gesture, pr_confidence = max_confidence,
                         pr_probabilities = filtered_probs class_names predictions\<rparr>
                  else
                    (let confidence = predictions ! predicted_class;
                         filtered_probabilities = filtered_probs class_names predictions;
                         total_prob = sum_list (map snd filtered_probabilities);
                         filtered_probabilities =
                           (if total_prob > 0
                            then map (\<lambda>(label, prob). (label, prob / total_prob)) filtered_probabilities
                            else filtered_probabilities)
                     in Inr \<lparr>pr_prediction = predicted_label, pr_confidence = confidence,
                          pr_probabilities = filtered_probabilities\<rparr>))))"

text \<open>Lines 209 to 305: the components from the cache, or from disk into the cache.\<close>

definition load_label_encoder :: "string \<Rightarrow> model_dir \<Rightarrow> exn + string list" where
  "load_label_encoder path dir =
     (case label_encoder_pkl dir of
        Some (Inr classes) \<Rightarrow> Inr classes
      | _ \<Rightarrow>
        (case label_encoder_json dir of
           None \<Rightarrow> Inl (Exception (''No label encoder found at: '' @ path @ ''/label_encoder.json''))
         | Some (Inl e) \<Rightarrow> Inl (Exception (''Failed to load label encoder: '' @ str_exn e))
         | Some (Inr classes) \<Rightarrow> Inr classes))"

definition load_components ::
  "ml_service \<Rightarrow> disk \<Rightarrow> string \<Rightarrow>
     exn + ((keras_model \<times> string list \<times> scaler \<times> validator option) \<times> ml_service)" where
  "load_components self fs model_id =
     (case (models self model_id, label_encoders self model_id, scalers self model_id) of
        (Some model, Some class_names, Some scaler) \<Rightarrow>
          Inr ((model, class_names, scaler,
                (case gesture_validators self model_id of Some v \<Rightarrow> v | None \<Rightarrow> None)), self)
      | _ \<Rightarrow>
        (let path = get_safe_model_path model_id
         in case fs path of
              None \<Rightarrow> Inl (Exception (''Model directory not found: '' @ path))
            | Some dir \<Rightarrow>
              (case model_h5 dir of
                 None \<Rightarrow> Inl (Exception (''Model file not found: '' @ path @ ''/model.h5''))
               | Some (Inl e) \<Rightarrow> Inl (Exception (''Failed to load model: '' @ str_exn e))
               | Some (Inr model) \<Rightarrow>
                 (case load_label_encoder path dir of
                    Inl e \<Rightarrow> Inl e
                  | Inr class_names \<Rightarrow>
                    (let scaler = (case scaler_pkl dir of Some (Inr s) \<Rightarrow> s | _ \<Rightarrow> create_default_scaler);
                         validator = (case validator_pkl dir of Some (Inr v) \<Rightarrow> Some v | _ \<Rightarrow> None)
                     in Inr ((model, class_names, scaler, validator),
                          self\<lparr>models := (models self)(model_id \<mapsto> model),
                               label_encoders := (label_encoders self)(model_id \<mapsto> class_names),
                               scalers := (scalers self)(model_id \<mapsto> scaler),
                               gesture_validators := (gesture_validators self)(model_id \<mapsto> validator)\<rparr>))))))"

text \<open>Lines 321 to 338: scaling falls back to the raw features.\<close>

definition scale_features :: "scaler \<Rightarrow> pyfloat list \<Rightarrow> pyfloat list" where
  "scale_features scaler features =
     (case scaler_scale scaler of
        None \<Rightarrow> features
      | Some sc \<Rightarrow>
        if length sc = length features
        then (case transform scaler features of Inr scaled \<Rightarrow> scaled | Inl e \<Rightarrow> features)
        else features)"

text \<open>Lines 307 to 390, with the components at hand.\<close>

definition predict_loaded ::
  "numpy \<Rightarrow> keras_model \<Rightarrow> string list \<Rightarrow> scaler \<Rightarrow> landmark list option \<Rightarrow> exn + prediction_result" where
  "predict_loaded np model class_names scaler prediction_data =
     (case prediction_data of
        None \<Rightarrow> Inl (ValueError ''No landmarks provided'')
      | Some landmarks \<Rightarrow>
        if landmarks = [] then Inl (ValueError ''No landmarks provided'')
        else if length landmarks \<noteq> 21
        then Inl (ValueError (''Expected 21 landmarks, got '' @ show_nat (length landmarks)))
        else if \<not> is_valid_hand_pose landmarks
        then Inr \<lparr>pr_prediction = hand_not_detected, pr_confidence = 0, pr_probabilities = []\<rparr>
        else
          (case extract_features_fixed np landmarks of
             Inl e \<Rightarrow> Inl (Exception (''Feature extraction failed: '' @ str_exn e))
           | Inr features \<Rightarrow>
             (case model (scale_features scaler features) of
                Inl e \<Rightarrow> Inl (Exception (''Model prediction failed: '' @ str_exn e))
              | Inr predictions \<Rightarrow> decide class_names predictions)))"

text \<open>
  \<^verbatim>\<open>predict\<close>: every exception of the body is re-raised as
  \<^verbatim>\<open>Exception("Error making prediction: ...")\<close>; the cache filled before the failure stays.
\<close>

definition predict ::
  "numpy \<Rightarrow> ml_service \<Rightarrow> disk \<Rightarrow> string \<Rightarrow> landmark list option \<Rightarrow>
     (exn + prediction_result) \<times> ml_service" where
  "predict np self fs model_id prediction_data =
     (case load_components self fs model_id of
        Inl e \<Rightarrow> (Inl (Exception (''Error making prediction: '' @ str_exn e)), self)
      | Inr ((model, class_names, scaler, validator), self') \<Rightarrow>
        (case predict_loaded np model class_names scaler prediction_data of
           Inl e \<Rightarrow> (Inl (Exception (''Error making prediction: '' @ str_exn e)), self')
         | Inr result \<Rightarrow> (Inr result, self')))"

subsection \<open>Training: data preparation and persistence of the artifact\<close>

record training_sample =
  ts_label :: string
  ts_landmarks :: "landmark list"

definition has_xyz :: "landmark \<Rightarrow> bool" where
  "has_xyz lm = (lm ''x'' \<noteq> None \<and> lm ''y'' \<noteq> None \<and> lm ''z'' \<noteq> None)"

text \<open>
  \<^verbatim>\<open>_prepare_training_data\<close>: a sample that is not 21 landmarks with the keys x, y, z,
  or for which the feature extractor raises, is skipped. The order of \<^verbatim>\<open>list(set(...))\<close> is not fixed by Python; the order of first
  occurrence stands for it.
\<close>

definition prepare_sample :: "numpy \<Rightarrow> training_sample \<Rightarrow> (pyfloat list \<times> string) option" where
  "prepare_sample np sample =
     (let landmarks = ts_landmarks sample
      in if landmarks = [] \<or> length landmarks \<noteq> 21 then None
         else if \<not> list_all has_xyz landmarks then None
         else (case extract_features_fixed np landmarks of
                 Inl e \<Rightarrow> None
               | Inr features \<Rightarrow> Some (features, ts_label sample)))"

definition prepare_training_data ::
  "numpy \<Rightarrow> training_sample list \<Rightarrow> pyfloat list list \<times> string list \<times> string list" where
  "prepare_training_data np training_data =
     (let labels = remdups (map ts_label training_data);
          kept = List.map_filter (prepare_sample np) training_data
      in (map fst kept, map snd kept, labels))"

text \<open>
  What lines 65 to 117 and 171 to 183 compute with numpy, scikit-learn and Keras, as a
  parameter: the fitted classifier, scaler, validator and label encoder classes, and the
  metrics step (which runs after the label encoder is saved and may raise).
\<close>

record fitted =
  fit_model :: keras_model
  fit_scaler :: scaler
  fit_validator :: validator
  fit_classes :: "string list"
  fit_metrics :: "exn + metrics"

datatype artifact_file =
  Model_h5 | Scaler_pkl | Validator_pkl | Label_encoder_pkl | Label_encoder_json | Metrics_json

text \<open>
  A write succeeds, fails before the file is touched, or fails after the file was
  opened for writing (and leaves a damaged file).
\<close>

datatype write_outcome = Written | Open_failed exn | Dump_failed exn

record train_env =
  fit :: "pyfloat list list \<Rightarrow> string list \<Rightarrow> string list \<Rightarrow> exn + fitted"
  makedirs :: "exn option"
  write_file :: "artifact_file \<Rightarrow> write_outcome"

definition damaged :: exn where
  "damaged = Exception ''damaged file''"

definition empty_dir :: model_dir where
  "empty_dir = \<lparr>model_h5 = None, scaler_pkl = None, validator_pkl = None,
     label_encoder_pkl = None, label_encoder_json = None, metrics_json = None\<rparr>"

text \<open>A write whose failure is printed and not re-raised: the new content of the file.\<close>

definition write_swallowed :: "write_outcome \<Rightarrow> 'a \<Rightarrow> (exn + 'a) option \<Rightarrow> (exn + 'a) option" where
  "write_swallowed outcome obj old =
     (case outcome of
        Written \<Rightarrow> Some (Inr obj)
      | Open_failed e \<Rightarrow> old
      | Dump_failed e \<Rightarrow> Some (Inl damaged))"

definition training_error :: "exn \<Rightarrow> exn" where
  "training_error e = Exception (''Error training model: '' @ str_exn e)"

text \<open>Lines 119 to 199: persistence, metrics, and the update of the cache.\<close>

definition persist ::
  "ml_service \<Rightarrow> disk \<Rightarrow> train_env \<Rightarrow> string \<Rightarrow> fitted \<Rightarrow> (exn + metrics) \<times> ml_service \<times> disk" where
  "persist self fs env model_id f =
     (let model_dir = get_safe_model_path model_id
      in case makedirs env of
           Some e \<Rightarrow> (Inl e, self, fs)
         | None \<Rightarrow>
           (let dir0 = (case fs model_dir of None \<Rightarrow> empty_dir | Some d \<Rightarrow> d)
            in case write_file env Model_h5 of
                 Open_failed e \<Rightarrow> (Inl e, self, fs(model_dir \<mapsto> dir0))
               | Dump_failed e \<Rightarrow> (Inl e, self, fs(model_dir \<mapsto> dir0))
               | Written \<Rightarrow>
                 (let dir1 = dir0\<lparr>model_h5 := Some (Inr (fit_model f))\<rparr>;
                      dir2 = dir1\<lparr>scaler_pkl :=
                               write_swallowed (write_file env Scaler_pkl) (fit_scaler f) (scaler_pkl dir1)\<rparr>;
                      dir3 = dir2\<lparr>validator_pkl :=
                               write_swallowed (write_file env Validator_pkl) (fit_validator f) (validator_pkl dir2)\<rparr>;
                      dir4 = dir3\<lparr>label_encoder_pkl :=
                               write_swallowed (write_file env Label_encoder_pkl) (fit_classes f)
                                 (label_encoder_pkl dir3)\<rparr>
                  in case write_file env Label_encoder_json of
                       Open_failed e \<Rightarrow> (Inl e, self, fs(model_dir \<mapsto> dir4))
                     | Dump_failed e \<Rightarrow>
                         (Inl e, self, fs(model_dir \<mapsto> dir4\<lparr>label_encoder_json := Some (Inl damaged)\<rparr>))
                     | Written \<Rightarrow>
                       (let dir5 = dir4\<lparr>label_encoder_json := Some (Inr (fit_classes f))\<rparr>
                        in case fit_metrics f of
                             Inl e \<Rightarrow> (Inl e, self, fs(model_dir \<mapsto> dir5))
                           | Inr metrics \<Rightarrow>
                             (let dir6 = dir5\<lparr>metrics_json :=
                                      write_swallowed (write_file env Metrics_json) metrics (metrics_json dir5)\<rparr>
                              in (Inr metrics,
                                  self\<lparr>models := (models self)(model_id \<mapsto> fit_model f),
                                       label_encoders := (label_encoders self)(model_id \<mapsto> fit_classes f),
                                       scalers := (scalers self)(model_id \<mapsto> fit_scaler f),
                                       gesture_validators :=
                                         (gesture_validators self)(model_id \<mapsto> Some (fit_validator f))\<rparr>,
                                  fs(model_dir \<mapsto> dir6)))))))"

text \<open>
  \<^verbatim>\<open>train_model\<close>: every exception of the body is re-raised as
  \<^verbatim>\<open>Exception("Error training model: ...")\<close>.
\<close>

definition train_body ::
  "numpy \<Rightarrow> ml_service \<Rightarrow> disk \<Rightarrow> train_env \<Rightarrow> string \<Rightarrow> training_sample list \<Rightarrow>
     (exn + metrics) \<times> ml_service \<times> disk" where
  "train_body np self fs env model_id training_data =
     (if training_data = [] then (Inl (ValueError ''No training data provided''), self, fs)
      else
        (case prepare_training_data np training_data of (X, y, labels) \<Rightarrow>
           if length X = 0
           then (Inl (ValueError ''No valid training samples after processing''), self, fs)
           else if length (remdups y) < 2
           then (Inl (ValueError ''Need at least 2 different classes''), self, fs)
           else (case fit env X y labels of
                   Inl e \<Rightarrow> (Inl e, self, fs)
                 | Inr f \<Rightarrow> persist self fs env model_id f)))"

definition train_model ::
  "numpy \<Rightarrow> ml_service \<Rightarrow> disk \<Rightarrow> train_env \<Rightarrow> string \<Rightarrow> training_sample list \<Rightarrow>
     (exn + metrics) \<times> ml_service \<times> disk" where
  "train_model np self fs env model_id training_data =
     (case train_body np self fs env model_id training_data of
        (Inl e, self', fs') \<Rightarrow> (Inl (training_error e), self', fs')
      | (Inr metrics, self', fs') \<Rightarrow> (Inr metrics, self', fs'))"

subsection \<open>The learning service: comparison with a target\<close>

record comparison_result =
  cr_prediction :: string
  cr_confidence :: real
  cr_isMatch :: bool
  cr_feedback :: string
  cr_similarity :: real
  cr_timestamp :: string
  cr_detectionQuality :: string


record session_stat_label =
  attempts :: int
  successes :: int
  averageConfidence :: real

record session_stat =
  totalAttempts :: int
  correctAttempts :: int
  totalConfidence :: real
  totalSimilarity :: real
  currentStreak :: int
  bestStreak :: int
  timeSpent :: int
  lastActivity :: string
  labelProgress :: "string \<rightharpoonup> session_stat_label"

record learning_service =
  ml_service :: ml_service
  comparison_cache :: "string \<rightharpoonup> comparison_result list"
  session_stats :: "string \<rightharpoonup> session_stat"

definition LearningService_init :: learning_service where
  "LearningService_init =
     \<lparr>ml_service = MLService_init, comparison_cache = Map.empty, session_stats = Map.empty\<rparr>"



text \<open>
  \<^verbatim>\<open>_compute_landmark_similarity\<close>: \<^verbatim>\<open>lm['x']\<close> on a landmark without the key raises
  \<^verbatim>\<open>KeyError\<close>, which the \<^verbatim>\<open>except\<close> turns into 0.0.
\<close>

definition point_distance :: "landmark \<Rightarrow> landmark \<Rightarrow> real" where
  "point_distance lm1 lm2 =
     sqrt ((the (lm1 ''x'') - the (lm2 ''x''))\<^sup>2 + (the (lm1 ''y'') - the (lm2 ''y''))\<^sup>2
           + (the (lm1 ''z'') - the (lm2 ''z''))\<^sup>2)"

definition compute_landmark_similarity :: "landmark list \<Rightarrow> landmark list \<Rightarrow> real" where
  "compute_landmark_similarity landmarks1 landmarks2 =
     (if length landmarks1 \<noteq> 21 \<or> length landmarks2 \<noteq> 21 then 0
      else if \<not> (list_all has_xyz landmarks1 \<and> list_all has_xyz landmarks2) then 0
      else
        (let distances = map (\<lambda>i. point_distance (landmarks1 ! i) (landmarks2 ! i)) [0 ..< 21];
             avg_distance = sum_list distances / real (length distances);
             similarity = max 0 (1 - avg_distance * 10)
         in min 1 similarity))"








subsection \<open>The learning service: session statistics\<close>

record progress_data =
  pd_isCorrect :: "bool option"
  pd_confidence :: "real option"
  pd_similarity :: "real option"
  pd_sessionTime :: "int option"
  pd_targetLabel :: "string option"

record session_stats_view =
  sv_totalAttempts :: int
  sv_correctAttempts :: int
  sv_averageConfidence :: real
  sv_averageSimilarity :: real
  sv_successRate :: real
  sv_currentStreak :: int
  sv_bestStreak :: int
  sv_timeSpent :: int
  sv_lastActivity :: "string option"

definition session_key_of :: "string \<Rightarrow> string \<Rightarrow> string" where
  "session_key_of model_id user_id = model_id @ ''_'' @ user_id"

definition get_session_stats :: "learning_service \<Rightarrow> string \<Rightarrow> string option \<Rightarrow> session_stats_view" where
  "get_session_stats self model_id session_id =
     (let cache_key = (case session_id of
                         None \<Rightarrow> model_id
                       | Some sid \<Rightarrow> if sid = [] then model_id else session_key_of model_id sid)
      in case session_stats self cache_key of
           None \<Rightarrow>
             \<lparr>sv_totalAttempts = 0, sv_correctAttempts = 0, sv_averageConfidence = 0,
              sv_averageSimilarity = 0, sv_successRate = 0, sv_currentStreak = 0, sv_bestStreak = 0,
              sv_timeSpent = 0, sv_lastActivity = None\<rparr>
         | Some stats \<Rightarrow>
             (let success_rate =
                    (real_of_int (correctAttempts stats) / real_of_int (max (totalAttempts stats) 1)) * 100
              in \<lparr>sv_totalAttempts = totalAttempts stats, sv_correctAttempts = correctAttempts stats,
                  sv_averageConfidence = totalConfidence stats / real_of_int (max (totalAttempts stats) 1),
                  sv_averageSimilarity = totalSimilarity stats / real_of_int (max (totalAttempts stats) 1),
                  sv_successRate = success_rate, sv_currentStreak = currentStreak stats,
                  sv_bestStreak = bestStreak stats, sv_timeSpent = timeSpent stats,
                  sv_lastActivity = Some (lastActivity stats)\<rparr>))"

definition fresh_stats :: "string \<Rightarrow> session_stat" where
  "fresh_stats now =
     \<lparr>totalAttempts = 0, correctAttempts = 0, totalConfidence = 0, totalSimilarity = 0,
      currentStreak = 0, bestStreak = 0, timeSpent = 0, lastActivity = now, labelProgress = Map.empty\<rparr>"

definition is_correct :: "progress_data \<Rightarrow> bool" where
  "is_correct pd = (pd_isCorrect pd = Some True)"

definition get_or :: "'a option \<Rightarrow> 'a \<Rightarrow> 'a" where
  "get_or v d = (case v of None \<Rightarrow> d | Some x \<Rightarrow> x)"

text \<open>Lines 128 to 139 of \<^verbatim>\<open>update_progress\<close>.\<close>

definition update_counters :: "session_stat \<Rightarrow> progress_data \<Rightarrow> string \<Rightarrow> session_stat" where
  "update_counters stats pd now =
     (let stats =
            (if is_correct pd
             then (let stats = stats\<lparr>correctAttempts := correctAttempts stats + 1\<rparr>;
                       stats = stats\<lparr>currentStreak := currentStreak stats + 1\<rparr>
                   in stats\<lparr>bestStreak := max (bestStreak stats) (currentStreak stats)\<rparr>)
             else stats\<lparr>currentStreak := 0\<rparr>);
          stats = stats\<lparr>totalAttempts := totalAttempts stats + 1\<rparr>;
          stats = stats\<lparr>totalConfidence := totalConfidence stats + get_or (pd_confidence pd) 0\<rparr>;
          stats = stats\<lparr>totalSimilarity := totalSimilarity stats + get_or (pd_similarity pd) 0\<rparr>;
          stats = stats\<lparr>timeSpent := timeSpent stats + get_or (pd_sessionTime pd) 0\<rparr>
      in stats\<lparr>lastActivity := now\<rparr>)"

text \<open>Lines 141 to 157 of \<^verbatim>\<open>update_progress\<close>.\<close>

definition update_label_progress :: "session_stat \<Rightarrow> progress_data \<Rightarrow> session_stat" where
  "update_label_progress stats pd =
     (case pd_targetLabel pd of
        None \<Rightarrow> stats
      | Some target_label \<Rightarrow>
        if target_label = [] then stats
        else
          (let label_stats =
                 (case labelProgress stats target_label of
                    None \<Rightarrow> \<lparr>attempts = 0, successes = 0, averageConfidence = 0\<rparr>
                  | Some ls \<Rightarrow> ls);
               label_stats = label_stats\<lparr>attempts := attempts label_stats + 1\<rparr>;
               label_stats =
                 (if is_correct pd then label_stats\<lparr>successes := successes label_stats + 1\<rparr>
                  else label_stats);
               label_stats = label_stats\<lparr>averageConfidence :=
                 (averageConfidence label_stats * real_of_int (attempts label_stats - 1)
                  + get_or (pd_confidence pd) 0) / real_of_int (attempts label_stats)\<rparr>
           in stats\<lparr>labelProgress := (labelProgress stats)(target_label \<mapsto> label_stats)\<rparr>))"

definition update_progress ::
  "learning_service \<Rightarrow> string \<Rightarrow> string \<Rightarrow> string \<Rightarrow> progress_data \<Rightarrow>
     session_stats_view \<times> learning_service" where
  "update_progress self now model_id user_id pd =
     (let session_key = session_key_of model_id user_id;
          stats = (case session_stats self session_key of None \<Rightarrow> fresh_stats now | Some st \<Rightarrow> st);
          stats = update_label_progress (update_counters stats pd now) pd;
          self = self\<lparr>session_stats := (session_stats self)(session_key \<mapsto> stats)\<rparr>
      in (get_session_stats self model_id (Some user_id), self))"

definition reset_user_progress :: "learning_service \<Rightarrow> string \<Rightarrow> string \<Rightarrow> bool \<times> learning_service" where
  "reset_user_progress self model_id user_id =
     (let session_key = session_key_of model_id user_id;
          self = (if session_key \<in> dom (session_stats self)
                  then self\<lparr>session_stats := (session_stats self)(session_key := None)\<rparr> else self);
          self = (if session_key \<in> dom (comparison_cache self)
                  then self\<lparr>comparison_cache := (comparison_cache self)(session_key := None)\<rparr> else self)
      in (True, self))"

text \<open>A sequence of calls of \<^verbatim>\<open>update_progress\<close>, each with the time it is made at.\<close>

fun run_updates ::
  "learning_service \<Rightarrow> (string \<times> string \<times> string \<times> progress_data) list \<Rightarrow> learning_service" where
  "run_updates self [] = self"
| "run_updates self ((now, model_id, user_id, pd) # calls) =
     run_updates (snd (update_progress self now model_id user_id pd)) calls"

subsection \<open>Notions used in the statements\<close>

text \<open>The statistics stored under a key after one call of \<^verbatim>\<open>update_progress\<close>.\<close>

definition step_stats :: "session_stat option \<Rightarrow> string \<Rightarrow> progress_data \<Rightarrow> session_stat" where
  "step_stats old now pd =
     update_label_progress (update_counters (case old of None \<Rightarrow> fresh_stats now | Some st \<Rightarrow> st) pd now) pd"

text \<open>Consecutive calls of \<^verbatim>\<open>update_progress\<close> for one model and one user.\<close>

definition key_calls :: "string \<Rightarrow> string \<Rightarrow> (string \<times> progress_data) list \<Rightarrow> (string \<times> string \<times> string \<times> progress_data) list" where
  "key_calls model_id user_id xs = map (\<lambda>(now, pd). (now, model_id, user_id, pd)) xs"

definition streak_inv :: "learning_service \<Rightarrow> bool" where
  "streak_inv self =
     (\<forall>k st. session_stats self k = Some st \<longrightarrow> 0 \<le> currentStreak st \<and> currentStreak st \<le> bestStreak st)"

text \<open>Two attempts, one correct and one not, for the concrete instances below.\<close>

definition hit :: progress_data where
  "hit = \<lparr>pd_isCorrect = Some True, pd_confidence = Some (9 / 10), pd_similarity = Some (8 / 10),
     pd_sessionTime = Some 5, pd_targetLabel = Some ''A''\<rparr>"

definition miss :: progress_data where
  "miss = \<lparr>pd_isCorrect = Some False, pd_confidence = Some (4 / 10), pd_similarity = Some (3 / 10),
     pd_sessionTime = Some 5, pd_targetLabel = Some ''A''\<rparr>"

text \<open>Landmark sets for the concrete instances below.\<close>

definition origin_hand :: "landmark list" where
  "origin_hand = replicate 21 [''x'' \<mapsto> 0, ''y'' \<mapsto> 0, ''z'' \<mapsto> 0]"

text \<open>The coordinates of a translated landmark.\<close>

definition vadd :: "coord \<Rightarrow> coord \<Rightarrow> coord" where
  "vadd d c = (case c of (c0, c1, c2) \<Rightarrow> case d of (dx, dy, dz) \<Rightarrow> (c0 + dx, c1 + dy, c2 + dz))"

text \<open>
  Coordinates of magnitude at most \<open>2 ^ 510\<close>: the squares of their differences do not
  overflow.
\<close>

definition small_coord :: "coord \<Rightarrow> bool" where
  "small_coord c = (case c of (c0, c1, c2) \<Rightarrow> \<bar>c0\<bar> \<le> 2 ^ 510 \<and> \<bar>c1\<bar> \<le> 2 ^ 510 \<and> \<bar>c2\<bar> \<le> 2 ^ 510)"

definition small_landmarks :: "landmark list \<Rightarrow> bool" where
  "small_landmarks landmarks = list_all small_coord (coords_of landmarks)"

text \<open>
  A numpy that sums the products from left to right and rounds correctly, for the concrete
  instances below.
\<close>

definition numpy_sequential :: numpy where
  "numpy_sequential =
     \<lparr>np_dot = (\<lambda>a b. case a of (a0, a1, a2) \<Rightarrow> case b of (b0, b1, b2) \<Rightarrow>
                  fadd (fadd (fmul a0 b0) (fmul a1 b1)) (fmul a2 b2)),
      np_linalg_norm = (\<lambda>a. case a of (a0, a1, a2) \<Rightarrow>
                  fsqrt (fadd (fadd (fmul a0 a0) (fmul a1 a1)) (fmul a2 a2))),
      np_arccos = (\<lambda>x. case x of Fin v \<Rightarrow> (if \<bar>v\<bar> \<le> 1 then fl (arccos v) else NaN) | _ \<Rightarrow> NaN)\<rparr>"

text \<open>
  A hand with one coordinate \<open>2 ^ 600\<close>; the binary64 numbers that Python prints as 0.1,
  0.3, 0.4 and 0.10000000000000003, and a hand whose 20 other points lie 0.1 from the wrist;
  the first 63 features and one feature of a result.
\<close>

definition float_2_600 :: real where
  "float_2_600 = 2 ^ 600"

definition huge_hand :: "landmark list" where
  "huge_hand = origin_hand[4 := [''x'' \<mapsto> float_2_600, ''y'' \<mapsto> 0, ''z'' \<mapsto> 0]]"

definition float_0_1 :: real where
  "float_0_1 = 3602879701896397 / 2 ^ 55"

definition float_0_3 :: real where
  "float_0_3 = 5404319552844595 / 2 ^ 54"

definition float_0_4 :: real where
  "float_0_4 = 3602879701896397 / 2 ^ 53"

definition float_0_1_up :: real where
  "float_0_1_up = 1801439850948199 / 2 ^ 54"

definition offset_0_3 :: coord where
  "offset_0_3 = (float_0_3, float_0_3, float_0_3)"

definition tenth_hand :: "landmark list" where
  "tenth_hand = [''x'' \<mapsto> 0, ''y'' \<mapsto> 0, ''z'' \<mapsto> 0] # replicate 20 [''x'' \<mapsto> float_0_1, ''y'' \<mapsto> 0, ''z'' \<mapsto> 0]"

definition first_63 :: "exn + pyfloat list \<Rightarrow> exn + pyfloat list" where
  "first_63 r = (case r of Inl e \<Rightarrow> Inl e | Inr features \<Rightarrow> Inr (take 63 features))"

definition feature_at :: "nat \<Rightarrow> exn + pyfloat list \<Rightarrow> exn + pyfloat" where
  "feature_at i r = (case r of Inl e \<Rightarrow> Inl e | Inr features \<Rightarrow> Inr (features ! i))"

text \<open>The mean distance of two landmark sets, point by point, and the clamp of a value to an
  interval, as the specification words the similarity.\<close>

definition avg_distance :: "landmark list \<Rightarrow> landmark list \<Rightarrow> real" where
  "avg_distance landmarks1 landmarks2 =
     sum_list (map (\<lambda>i. point_distance (landmarks1 ! i) (landmarks2 ! i)) [0 ..< 21]) / 21"

definition clamp :: "real \<Rightarrow> real \<Rightarrow> real \<Rightarrow> real" where
  "clamp v lo hi = (if v < lo then lo else if hi < v then hi else v)"

definition shifted_hand :: "landmark list" where
  "shifted_hand = replicate 21 [''x'' \<mapsto> 3 / 100, ''y'' \<mapsto> 1 / 25, ''z'' \<mapsto> 0]"

text \<open>The two results of lines 363 to 390 and the condition of lines 359 to 361, named for
  the statements.\<close>

definition rejection_result :: "string list \<Rightarrow> real list \<Rightarrow> prediction_result" where
  "rejection_result class_names p =
     \<lparr>pr_prediction = no_clear_gesture, pr_confidence = np_max p,
      pr_probabilities = filtered_probs class_names p\<rparr>"

definition renormalized :: "(string \<times> real) list \<Rightarrow> (string \<times> real) list" where
  "renormalized d =
     (if sum_list (map snd d) > 0 then map (\<lambda>(label, prob). (label, prob / sum_list (map snd d))) d else d)"

definition accepted_result :: "string list \<Rightarrow> real list \<Rightarrow> prediction_result" where
  "accepted_result class_names p =
     \<lparr>pr_prediction = class_names ! np_argmax p, pr_confidence = p ! np_argmax p,
      pr_probabilities = renormalized (filtered_probs class_names p)\<rparr>"

definition rejects :: "string list \<Rightarrow> real list \<Rightarrow> bool" where
  "rejects class_names p =
     (np_max p < 1 / 2 \<or> 5 / 2 < calculate_entropy_threshold p \<or> class_names ! np_argmax p = NO_GESTURE)"

text \<open>A hand whose 20 other points lie at distance 0.125 from the wrist, and a service that
  has the components of the model m in its cache, with a classifier that answers p.\<close>

definition open_hand :: "landmark list" where
  "open_hand = [''x'' \<mapsto> 0, ''y'' \<mapsto> 0, ''z'' \<mapsto> 0] # replicate 20 [''x'' \<mapsto> 1 / 8, ''y'' \<mapsto> 0, ''z'' \<mapsto> 0]"

definition cached_service :: "string list \<Rightarrow> real list \<Rightarrow> ml_service" where
  "cached_service class_names p =
     \<lparr>models = [''m'' \<mapsto> (\<lambda>features. Inr p)], label_encoders = [''m'' \<mapsto> class_names],
      scalers = [''m'' \<mapsto> create_default_scaler], gesture_validators = [''m'' \<mapsto> None]\<rparr>"


text \<open>A training set of three samples with two labels (so that one negative sample is
  generated and four samples are fitted), a fit that ignores its data, and two environments
  in which one write fails.\<close>

definition three_samples :: "training_sample list" where
  "three_samples =
     [\<lparr>ts_label = ''A'', ts_landmarks = open_hand\<rparr>,
      \<lparr>ts_label = ''B'', ts_landmarks = origin_hand\<rparr>,
      \<lparr>ts_label = ''B'', ts_landmarks = tenth_hand\<rparr>]"

definition three_features :: "numpy \<Rightarrow> pyfloat list list" where
  "three_features np =
     map (\<lambda>hand. case extract_features_fixed np hand of Inr features \<Rightarrow> features | Inl e \<Rightarrow> [])
       [open_hand, origin_hand, tenth_hand]"

definition fitted_example :: fitted where
  "fitted_example =
     \<lparr>fit_model = (\<lambda>features. Inr [9 / 10, 1 / 10, 0]),
      fit_scaler = create_default_scaler,
      fit_validator = Validator [] [] [] [],
      fit_classes = [''A'', ''B'', NO_GESTURE],
      fit_metrics = Inr \<lparr>accuracy = 3 / 4, totalSamples = 4, trainingTime = 0, trainingHistory = [],
                          confusionMatrix = [], classDistribution = []\<rparr>\<rparr>"

definition scaler_write_fails :: train_env where
  "scaler_write_fails =
     \<lparr>fit = (\<lambda>X y labels. Inr fitted_example), makedirs = None,
      write_file = (\<lambda>file. if file = Scaler_pkl then Open_failed (Exception ''No space left on device'')
                             else Written)\<rparr>"

definition json_write_fails :: train_env where
  "json_write_fails =
     \<lparr>fit = (\<lambda>X y labels. Inr fitted_example), makedirs = None,
      write_file = (\<lambda>file. if file = Label_encoder_json then Open_failed (Exception ''No space left on device'')
                             else Written)\<rparr>"

section \<open>Properties\<close>

subsection \<open>Rounding to binary64\<close>

lemma round_half_even_of_int: "round_half_even (of_int n) = n"
  by (simp add: round_half_even_def)

lemma round_half_even_le:
  assumes "y \<le> of_int N"
  shows "round_half_even y \<le> N"
proof -
  have f: "\<lfloor>y\<rfloor> \<le> N" using assms by (simp add: floor_le_iff)
  show ?thesis
  proof (cases "\<lfloor>y\<rfloor> = N")
    case True
    then have "of_int N \<le> y" by (metis of_int_floor_le)
    with assms have "y = of_int N" by simp
    then show ?thesis by (simp add: round_half_even_of_int)
  next
    case False
    with f have "\<lfloor>y\<rfloor> + 1 \<le> N" by simp
    then show ?thesis
      using f by (auto simp: round_half_even_def Let_def)
  qed
qed

lemma round_half_even_ge:
  assumes "of_int N \<le> y"
  shows "N \<le> round_half_even y"
proof -
  have "N \<le> \<lfloor>y\<rfloor>" using assms by (simp add: le_floor_iff)
  then show ?thesis
    by (auto simp: round_half_even_def Let_def)
qed

lemma powr2: "(2::real) powr real_of_int k = 2 powi k"
  by (simp add: powr_real_of_int')

lemma powr2_Suc: "(2::real) powr (real_of_int k + 1) = 2 powi (k + 1)"
  using powr2 [of "k + 1"] by simp

lemma binade:
  assumes "x \<noteq> 0"
  shows "2 powi \<lfloor>log 2 \<bar>x\<bar>\<rfloor> \<le> \<bar>x\<bar>" and "\<bar>x\<bar> < 2 powi (\<lfloor>log 2 \<bar>x\<bar>\<rfloor> + 1)"
proof -
  have pos: "0 < \<bar>x\<bar>" using assms by simp
  have "(2::real) powr real_of_int \<lfloor>log 2 \<bar>x\<bar>\<rfloor> \<le> \<bar>x\<bar>
      \<and> \<bar>x\<bar> < 2 powr real_of_int (\<lfloor>log 2 \<bar>x\<bar>\<rfloor> + 1)"
    using floor_log_eq_powr_iff [OF pos, of 2 "\<lfloor>log 2 \<bar>x\<bar>\<rfloor>"] by simp
  then show "2 powi \<lfloor>log 2 \<bar>x\<bar>\<rfloor> \<le> \<bar>x\<bar>" and "\<bar>x\<bar> < 2 powi (\<lfloor>log 2 \<bar>x\<bar>\<rfloor> + 1)"
    by (simp_all add: powr2 powr2_Suc)
qed

lemma floor_log2_eq:
  assumes "2 powi e \<le> \<bar>x\<bar>" "\<bar>x\<bar> < 2 powi (e + 1)"
  shows "\<lfloor>log 2 \<bar>x\<bar>\<rfloor> = e"
proof -
  have "(0::real) < 2 powi e" by simp
  with assms(1) have pos: "0 < \<bar>x\<bar>" by linarith
  have "(2::real) powr real_of_int e \<le> \<bar>x\<bar> \<and> \<bar>x\<bar> < 2 powr real_of_int (e + 1)"
    using assms by (simp add: powr2 powr2_Suc)
  then show ?thesis
    using floor_log_eq_powr_iff [OF pos, of 2 e] by simp
qed

lemma powi_mono2: "a \<le> b \<Longrightarrow> (2::real) powi a \<le> 2 powi b"
  by (rule power_int_increasing) simp_all

lemma floor_log2_less:
  assumes "x \<noteq> 0" "\<bar>x\<bar> < 2 powi n"
  shows "\<lfloor>log 2 \<bar>x\<bar>\<rfloor> < n"
proof (rule ccontr)
  assume "\<not> \<lfloor>log 2 \<bar>x\<bar>\<rfloor> < n"
  then have "(2::real) powi n \<le> 2 powi \<lfloor>log 2 \<bar>x\<bar>\<rfloor>"
    by (intro powi_mono2) simp
  with binade(1) [OF assms(1)] assms(2) show False by linarith
qed

lemma floor_log2_le:
  assumes "x \<noteq> 0" "\<bar>x\<bar> \<le> 2 powi n"
  shows "\<lfloor>log 2 \<bar>x\<bar>\<rfloor> \<le> n"
proof -
  have "(2::real) powi n < 2 powi (n + 1)"
    by (rule power_int_strict_increasing) simp_all
  with assms(2) have "\<bar>x\<bar> < 2 powi (n + 1)" by linarith
  from floor_log2_less [OF assms(1) this] show ?thesis by simp
qed

lemma powi_diff2: "(2::real) powi a / 2 powi b = 2 powi (a - b)"
  by (simp add: power_int_diff)

lemma powi_nonneg_int: "0 \<le> d \<Longrightarrow> (2::real) powi d = of_int (2 ^ nat d)"
  by (simp add: power_int_def)

lemma rnd64_representable:
  assumes "x = of_int m * 2 powi k" "\<bar>m\<bar> < 2 ^ 53" "- 1074 \<le> k"
  shows "rnd64 x = x"
proof (cases "x = 0")
  case True
  then show ?thesis by (simp add: rnd64_def)
next
  case False
  let ?u = "ulp_exponent x"
  have "\<bar>x\<bar> = of_int \<bar>m\<bar> * 2 powi k"
    by (simp add: assms(1) abs_mult)
  also have "\<dots> < of_int (2 ^ 53) * 2 powi k"
    using assms(2) by (intro mult_strict_right_mono) (simp_all del: of_int_power of_int_numeral)
  also have "\<dots> = 2 powi (53 + k)"
    by (simp add: power_int_add)
  finally have "\<lfloor>log 2 \<bar>x\<bar>\<rfloor> < 53 + k"
    by (rule floor_log2_less [OF False])
  then have u: "?u \<le> k"
    using assms(3) by (simp add: ulp_exponent_def)
  have "x / 2 powi ?u = of_int m * (2 powi k / 2 powi ?u)"
    by (simp add: assms(1))
  also have "\<dots> = of_int m * 2 powi (k - ?u)"
    by (simp only: powi_diff2)
  also have "\<dots> = of_int (m * 2 ^ nat (k - ?u))"
    using u by (simp add: powi_nonneg_int)
  finally have "round_half_even (x / 2 powi ?u) = m * 2 ^ nat (k - ?u)"
    by (simp only: round_half_even_of_int)
  then have "rnd64 x = of_int (m * 2 ^ nat (k - ?u)) * 2 powi ?u"
    using False by (simp add: rnd64_def)
  also have "\<dots> = of_int m * (2 powi (k - ?u) * 2 powi ?u)"
    using u by (simp add: powi_nonneg_int)
  also have "\<dots> = of_int m * 2 powi k"
    by (simp add: power_int_add [symmetric])
  finally show ?thesis by (simp add: assms(1))
qed

lemma rnd64_abs_le:
  assumes "\<bar>x\<bar> \<le> 2 powi n" "- 1074 \<le> n"
  shows "\<bar>rnd64 x\<bar> \<le> 2 powi n"
proof (cases "x = 0")
  case True
  then show ?thesis by (simp add: rnd64_def)
next
  case False
  let ?u = "ulp_exponent x"
  let ?N = "2 ^ nat (n - ?u) :: int"
  have "\<lfloor>log 2 \<bar>x\<bar>\<rfloor> \<le> n" by (rule floor_log2_le [OF False assms(1)])
  then have u: "?u \<le> n" using assms(2) by (simp add: ulp_exponent_def)
  have pos: "(0::real) < 2 powi ?u" by simp
  have N: "of_int ?N = (2::real) powi (n - ?u)"
    using u by (simp add: powi_nonneg_int)
  have "\<bar>x / 2 powi ?u\<bar> \<le> 2 powi n / 2 powi ?u"
    using assms(1) pos by (simp add: divide_right_mono)
  then have b: "\<bar>x / 2 powi ?u\<bar> \<le> of_int ?N"
    by (simp only: powi_diff2 N)
  have ub: "x / 2 powi ?u \<le> of_int ?N" and lb: "- of_int ?N \<le> x / 2 powi ?u"
    using b by linarith+
  have "round_half_even (x / 2 powi ?u) \<le> ?N"
    by (rule round_half_even_le [OF ub])
  moreover have "- ?N \<le> round_half_even (x / 2 powi ?u)"
    using lb by (intro round_half_even_ge) simp
  ultimately have "\<bar>round_half_even (x / 2 powi ?u)\<bar> \<le> ?N" by linarith
  then have "\<bar>real_of_int (round_half_even (x / 2 powi ?u))\<bar> \<le> real_of_int ?N"
    by (metis of_int_abs of_int_le_iff)
  then have "\<bar>real_of_int (round_half_even (x / 2 powi ?u))\<bar> * 2 powi ?u \<le> real_of_int ?N * 2 powi ?u"
    using pos by (intro mult_right_mono) simp_all
  also have "\<dots> = 2 powi n"
    by (simp add: N power_int_add [symmetric] del: of_int_power)
  finally show ?thesis
    using False by (simp add: rnd64_def abs_mult)
qed

lemma rnd64_binade:
  assumes "2 powi e \<le> \<bar>x\<bar>" "\<bar>x\<bar> < 2 powi (e + 1)" "- 1022 \<le> e"
  shows "rnd64 x = of_int (round_half_even (x / 2 powi (e - 52))) * 2 powi (e - 52)"
proof -
  have "(0::real) < 2 powi e" by simp
  with assms(1) have "0 < \<bar>x\<bar>" by linarith
  then have "x \<noteq> 0" by simp
  moreover have "ulp_exponent x = e - 52"
    using floor_log2_eq [OF assms(1,2)] assms(3) by (simp add: ulp_exponent_def)
  ultimately show ?thesis by (simp add: rnd64_def)
qed

lemma rnd64_0: "rnd64 0 = 0"
  by (simp add: rnd64_def)

subsection \<open>Feature extractor\<close>

lemma pad78_eq: "pad78 fs = fs @ replicate (78 - length fs) (Fin 0)"
proof (induction fs rule: pad78.induct)
  case (1 features)
  show ?case
  proof (cases "length features < 78")
    case True
    then have "78 - length features = Suc (78 - length (features @ [Fin 0]))"
      by simp
    with True 1 show ?thesis
      by (subst pad78.simps) (simp add: replicate_app_Cons_same)
  next
    case False
    then show ?thesis
      by (subst pad78.simps) simp
  qed
qed

lemma take78_pad78:
  assumes "78 \<le> length fs"
  shows "take 78 (pad78 fs) = take 78 fs"
  using assms by (simp add: pad78_eq)

lemma length_wrist_relative: "length (wrist_relative cs) = 3 * length cs"
proof -
  have "length (concat (map (\<lambda>c. case vsub c w of (d0, d1, d2) \<Rightarrow> [d0, d1, d2]) cs)) = 3 * length cs"
    for w
    by (induction cs) (auto split: prod.splits)
  then show ?thesis
    by (simp add: wrist_relative_def Let_def)
qed

lemma collect_Inr_length: "collect rs = Inr vs \<Longrightarrow> length vs = length rs"
proof (induction rs arbitrary: vs)
  case Nil
  then show ?case by simp
next
  case (Cons r rs)
  then show ?case
    by (cases r) (auto split: sum.splits)
qed

lemma collect_Inl: "collect rs = Inl e \<Longrightarrow> Inl e \<in> set rs"
proof (induction rs)
  case Nil
  then show ?case by simp
next
  case (Cons r rs)
  then show ?case
    by (cases r) (auto split: sum.splits)
qed

lemma collect_all_Inr:
  "list_all (\<lambda>r. \<exists>v. r = Inr v) rs \<Longrightarrow> \<exists>vs. collect rs = Inr vs"
proof (induction rs)
  case Nil
  then show ?case by simp
next
  case (Cons r rs)
  then show ?case by auto
qed

lemma pow2_Inl: "pow2 x = Inl e \<Longrightarrow> e = overflow_error"
  by (cases x) (auto split: if_splits)

lemma euclid_Inl: "euclid a b = Inl e \<Longrightarrow> e = overflow_error"
  by (auto simp: euclid_def split: prod.splits sum.splits dest: pow2_Inl)

lemma tip_base_distances_Inl: "tip_base_distances cs = Inl e \<Longrightarrow> e = overflow_error"
  by (auto simp: tip_base_distances_def dest!: collect_Inl dest: euclid_Inl [OF sym])

lemma tip_wrist_distances_Inl: "tip_wrist_distances cs = Inl e \<Longrightarrow> e = overflow_error"
  by (auto simp: tip_wrist_distances_def Let_def dest!: collect_Inl dest: euclid_Inl [OF sym])

lemma raw_features_Inl: "raw_features np cs = Inl e \<Longrightarrow> e = overflow_error"
  by (auto simp: raw_features_def split: sum.splits
      dest: tip_base_distances_Inl tip_wrist_distances_Inl)

lemma length_tip_base_distances: "tip_base_distances cs = Inr tb \<Longrightarrow> length tb = 5"
  by (auto simp: tip_base_distances_def finger_tips_def finger_bases_def dest: collect_Inr_length)

lemma length_tip_wrist_distances: "tip_wrist_distances cs = Inr tw \<Longrightarrow> length tw = 5"
  by (auto simp: tip_wrist_distances_def finger_tips_def Let_def dest: collect_Inr_length)

lemma length_chain_angles: "length (chain_angles np cs chain) = length chain - 2"
  by (simp add: chain_angles_def)

lemma length_joint_angles: "length (joint_angles np cs) = 10"
  by (simp add: joint_angles_def finger_chains_def length_chain_angles)

lemma raw_features_Inr:
  assumes "raw_features np cs = Inr f"
  shows "\<exists>tb tw. tip_base_distances cs = Inr tb \<and> tip_wrist_distances cs = Inr tw
           \<and> length tb = 5 \<and> length tw = 5
           \<and> f = wrist_relative cs @ tb @ tw @ joint_angles np cs"
  using assms
  by (auto simp: raw_features_def split: sum.splits
      dest: length_tip_base_distances length_tip_wrist_distances)

lemma length_raw_features:
  assumes "raw_features np cs = Inr f"
  shows "length f = 3 * length cs + 20"
  using raw_features_Inr [OF assms]
  by (auto simp: length_wrist_relative length_joint_angles)

lemma extract_features_fixed_21:
  assumes "length landmarks = 21"
  shows "extract_features_fixed np landmarks =
           (case raw_features np (coords_of landmarks) of
              Inl e \<Rightarrow> Inl e
            | Inr f \<Rightarrow> Inr (take 78 f))"
proof (cases "raw_features np (coords_of landmarks)")
  case (Inl e)
  with assms show ?thesis by (simp add: extract_features_fixed_def)
next
  case (Inr f)
  have "length f = 83"
    using length_raw_features [OF Inr] assms by (simp add: coords_of_def)
  then have "take 78 (pad78 f) = take 78 f"
    by (simp add: take78_pad78)
  with assms Inr show ?thesis by (simp add: extract_features_fixed_def)
qed

lemma threshold_gt: "(2::real) ^ 1022 < overflow_threshold"
  by (simp add: overflow_threshold_def)

lemma fsub_small:
  assumes "\<bar>a\<bar> \<le> 2 ^ 510" "\<bar>b\<bar> \<le> 2 ^ 510"
  shows "\<exists>d. fsub (Fin a) (Fin b) = Fin d \<and> \<bar>d\<bar> \<le> 2 ^ 511"
proof -
  have ab: "\<bar>a - b\<bar> \<le> 2 ^ 511" using assms by simp
  have "(2::real) ^ 511 < 2 ^ 1022" by simp
  with threshold_gt have t: "(2::real) ^ 511 < overflow_threshold" by linarith
  have "\<bar>a - b\<bar> \<le> 2 powi 511" using ab by simp
  then have "\<bar>rnd64 (a - b)\<bar> \<le> 2 powi 511"
    by (rule rnd64_abs_le) simp
  then have r: "\<bar>rnd64 (a - b)\<bar> \<le> 2 ^ 511" by simp
  have "\<not> overflow_threshold \<le> a - b" "\<not> a - b \<le> - overflow_threshold"
    using ab t by linarith+
  then have "fsub (Fin a) (Fin b) = Fin (rnd64 (a - b))"
    by (simp add: fsub_def fl_def)
  with r show ?thesis by blast
qed

lemma pow2_small:
  assumes "\<bar>d\<bar> \<le> 2 ^ 511"
  shows "\<exists>s. pow2 (Fin d) = Inr s"
proof -
  have "d * d = \<bar>d\<bar> * \<bar>d\<bar>" by simp
  also have "\<dots> \<le> 2 ^ 511 * 2 ^ 511"
    using assms by (intro mult_mono) simp_all
  also have "\<dots> = (2::real) ^ 1022" by (simp add: power_add [symmetric])
  finally have "d * d < overflow_threshold" using threshold_gt by linarith
  then show ?thesis by simp
qed

lemma euclid_small:
  assumes "small_coord a" "small_coord b"
  shows "\<exists>v. euclid a b = Inr v"
proof -
  obtain a0 a1 a2 b0 b1 b2 where ab: "a = (a0, a1, a2)" "b = (b0, b1, b2)"
    by (cases a, cases b) auto
  obtain d0 where d0: "fsub (Fin a0) (Fin b0) = Fin d0" "\<bar>d0\<bar> \<le> 2 ^ 511"
    using fsub_small [of a0 b0] assms ab by (auto simp: small_coord_def)
  obtain d1 where d1: "fsub (Fin a1) (Fin b1) = Fin d1" "\<bar>d1\<bar> \<le> 2 ^ 511"
    using fsub_small [of a1 b1] assms ab by (auto simp: small_coord_def)
  obtain d2 where d2: "fsub (Fin a2) (Fin b2) = Fin d2" "\<bar>d2\<bar> \<le> 2 ^ 511"
    using fsub_small [of a2 b2] assms ab by (auto simp: small_coord_def)
  obtain s0 s1 s2 where s: "pow2 (Fin d0) = Inr s0" "pow2 (Fin d1) = Inr s1" "pow2 (Fin d2) = Inr s2"
    using pow2_small d0(2) d1(2) d2(2) by blast
  show ?thesis
    by (simp add: euclid_def vsub_def ab d0(1) d1(1) d2(1) s del: pow2.simps)
qed

lemma small_nth: "list_all small_coord cs \<Longrightarrow> i < length cs \<Longrightarrow> small_coord (cs ! i)"
  by (simp add: list_all_length)

lemma tip_base_distances_small:
  assumes "length cs = 21" "list_all small_coord cs"
  shows "\<exists>tb. tip_base_distances cs = Inr tb"
  unfolding tip_base_distances_def
  by (rule collect_all_Inr)
     (simp add: finger_tips_def finger_bases_def euclid_small small_nth [OF assms(2)] assms(1))

lemma tip_wrist_distances_small:
  assumes "length cs = 21" "list_all small_coord cs"
  shows "\<exists>tw. tip_wrist_distances cs = Inr tw"
  unfolding tip_wrist_distances_def Let_def
  by (rule collect_all_Inr)
     (simp add: finger_tips_def euclid_small small_nth [OF assms(2)] assms(1))

lemma extract_features_fixed_small:
  assumes "length landmarks = 21" "small_landmarks landmarks"
  shows "\<exists>features. extract_features_fixed np landmarks = Inr features"
proof -
  have len: "length (coords_of landmarks) = 21"
    using assms(1) by (simp add: coords_of_def)
  have sm: "list_all small_coord (coords_of landmarks)"
    using assms(2) by (simp add: small_landmarks_def)
  obtain tb tw where "tip_base_distances (coords_of landmarks) = Inr tb"
    "tip_wrist_distances (coords_of landmarks) = Inr tw"
    using tip_base_distances_small [OF len sm] tip_wrist_distances_small [OF len sm] by blast
  then show ?thesis
    by (simp add: extract_features_fixed_21 [OF assms(1)] raw_features_def)
qed

lemma lm_get_translate:
  "lm_get (translate (dx, dy, dz) lm) ''x'' = lm_get lm ''x'' + dx"
  "lm_get (translate (dx, dy, dz) lm) ''y'' = lm_get lm ''y'' + dy"
  "lm_get (translate (dx, dy, dz) lm) ''z'' = lm_get lm ''z'' + dz"
  by (simp_all add: translate_def lm_get_def)

lemma coords_of_translate:
  "coords_of (map (translate d) landmarks) = map (vadd d) (coords_of landmarks)"
  by (cases d) (simp add: coords_of_def vadd_def lm_get_translate)

lemma fsub_shift: "fsub (Fin (a + d)) (Fin (b + d)) = fsub (Fin a) (Fin b)"
  by (simp add: fsub_def)

lemma vsub_vadd: "vsub (vadd d a) (vadd d b) = vsub a b"
  by (cases a; cases b; cases d) (simp add: vsub_def vadd_def fsub_shift)

lemma euclid_vadd: "euclid (vadd d a) (vadd d b) = euclid a b"
  by (simp add: euclid_def vsub_vadd)

lemma joint_angle_vadd: "joint_angle np (vadd d p1) (vadd d p2) (vadd d p3) = joint_angle np p1 p2 p3"
  by (simp add: joint_angle_def vsub_vadd)

lemma wrist_relative_vadd:
  assumes "cs \<noteq> []"
  shows "wrist_relative (map (vadd d) cs) = wrist_relative cs"
proof -
  have "map (vadd d) cs ! 0 = vadd d (cs ! 0)"
    using assms by (simp add: nth_map)
  then show ?thesis
    by (simp add: wrist_relative_def Let_def vsub_vadd comp_def)
qed

lemma raw_features_vadd:
  assumes "length cs = 21"
  shows "raw_features np (map (vadd d) cs) = raw_features np cs"
proof -
  have nth: "map (vadd d) cs ! i = vadd d (cs ! i)" if "i < 21" for i
    using that assms by simp
  have ne: "cs \<noteq> []" using assms by auto
  have tb: "tip_base_distances (map (vadd d) cs) = tip_base_distances cs"
    by (simp add: tip_base_distances_def finger_tips_def finger_bases_def nth euclid_vadd)
  have tw: "tip_wrist_distances (map (vadd d) cs) = tip_wrist_distances cs"
    by (simp add: tip_wrist_distances_def finger_tips_def nth euclid_vadd Let_def)
  have ja: "joint_angles np (map (vadd d) cs) = joint_angles np cs"
    by (simp add: joint_angles_def chain_angles_def finger_chains_def nth joint_angle_vadd
        upt_conv_Cons)
  show ?thesis
    unfolding raw_features_def tb tw ja wrist_relative_vadd [OF ne] ..
qed

lemma extract_features_fixed_translate:
  "extract_features_fixed np (map (translate d) landmarks) = extract_features_fixed np landmarks"
proof (cases "length landmarks = 21")
  case True
  then have "length (coords_of landmarks) = 21" by (simp add: coords_of_def)
  then show ?thesis
    using True
    by (simp add: extract_features_fixed_21 coords_of_translate raw_features_vadd)
next
  case False
  then show ?thesis by (simp add: extract_features_fixed_def)
qed

lemma take63_extract:
  assumes "length landmarks = 21" "extract_features_fixed np landmarks = Inr features"
  shows "take 63 features = wrist_relative (coords_of landmarks)"
proof -
  obtain f where f: "raw_features np (coords_of landmarks) = Inr f" and ft: "features = take 78 f"
    using assms by (auto simp: extract_features_fixed_21 split: sum.splits)
  have "length (coords_of landmarks) = 21" using assms(1) by (simp add: coords_of_def)
  then show ?thesis
    using raw_features_Inr [OF f] by (auto simp: ft length_wrist_relative)
qed

lemma replicate_20: "replicate 20 c = c # replicate 19 c"
  using replicate_Suc [of 19 c] by simp

lemma wrist_relative_nth_3: "wrist_relative (c0 # c1 # cs) ! 3 = fst (vsub c1 c0)"
  by (simp add: wrist_relative_def Let_def vsub_def split: prod.splits)

lemma feature_at_3:
  assumes "length landmarks = 21" "small_landmarks landmarks"
  shows "feature_at 3 (extract_features_fixed np landmarks) = Inr (wrist_relative (coords_of landmarks) ! 3)"
proof -
  obtain f where f: "extract_features_fixed np landmarks = Inr f"
    using extract_features_fixed_small [OF assms] by blast
  have "take 63 f = wrist_relative (coords_of landmarks)"
    by (rule take63_extract [OF assms(1) f])
  then have "wrist_relative (coords_of landmarks) ! 3 = take 63 f ! 3" by simp
  also have "\<dots> = f ! 3" by simp
  finally show ?thesis
    by (simp add: feature_at_def f)
qed

lemma rnd64_eighth: "rnd64 (1 / 8) = 1 / 8" and rnd64_64th: "rnd64 (1 / 64) = 1 / 64"
proof -
  show "rnd64 (1 / 8) = 1 / 8"
    by (rule rnd64_representable [of _ 1 "- 3"]) (simp_all add: power_int_minus)
  show "rnd64 (1 / 64) = 1 / 64"
    by (rule rnd64_representable [of _ 1 "- 6"]) (simp_all add: power_int_minus)
qed

lemma euclid_eighth: "euclid (1 / 8, 0, 0) (0, 0, 0) = Inr (Fin (1 / 8))"
proof -
  have t: "fl (1 / 8) = Fin (1 / 8)" "fl (1 / 64) = Fin (1 / 64)" "fl 0 = Fin 0"
    by (simp_all add: fl_def overflow_threshold_def rnd64_eighth rnd64_64th rnd64_0)
  have "sqrt ((1 / 8)\<^sup>2) = (1 / 8 :: real)" by simp
  then have sq: "sqrt (1 / 64) = (1 / 8 :: real)"
    by (simp add: power2_eq_square)
  show ?thesis
    by (simp add: euclid_def vsub_def fsub_def t overflow_threshold_def rnd64_64th rnd64_0 sq)
qed

lemma open_hand_valid: "length open_hand = 21 \<and> is_valid_hand_pose open_hand"
proof -
  have "float_0_01 < 1 / 8" by (simp add: float_0_01_def)
  then show ?thesis
    by (simp add: open_hand_def is_valid_hand_pose_def coords_of_def lm_get_def euclid_eighth Let_def)
qed

lemma small_open_hand: "small_landmarks open_hand"
  by (simp add: open_hand_def small_landmarks_def coords_of_def list_all_iff small_coord_def
      lm_get_def)

lemma extract_open_hand: "\<exists>features. extract_features_fixed np open_hand = Inr features"
  using extract_features_fixed_small [of open_hand np] open_hand_valid small_open_hand by simp

lemma coords_of_open_hand: "coords_of open_hand = (0, 0, 0) # replicate 20 (1 / 8, 0, 0)"
  by (simp add: open_hand_def coords_of_def lm_get_def)

lemma fsub_eighth: "fsub (Fin (1 / 8)) (Fin 0) = Fin (1 / 8)"
  by (simp add: fsub_def fl_def overflow_threshold_def rnd64_eighth)

subsection \<open>Session statistics\<close>

lemma streaks_update_label_progress:
  "currentStreak (update_label_progress st pd) = currentStreak st"
  "bestStreak (update_label_progress st pd) = bestStreak st"
  by (simp_all add: update_label_progress_def Let_def split: option.splits)

lemma currentStreak_update_counters:
  "currentStreak (update_counters st pd now) = (if is_correct pd then currentStreak st + 1 else 0)"
  by (simp add: update_counters_def Let_def)

lemma bestStreak_update_counters:
  "bestStreak (update_counters st pd now) =
     (if is_correct pd then max (bestStreak st) (currentStreak st + 1) else bestStreak st)"
  by (simp add: update_counters_def Let_def)

lemma session_stats_update_progress:
  "session_stats (snd (update_progress self now model_id user_id pd)) =
     (session_stats self)(session_key_of model_id user_id \<mapsto>
        step_stats (session_stats self (session_key_of model_id user_id)) now pd)"
  by (simp add: update_progress_def step_stats_def Let_def)

lemma currentStreak_step_stats:
  "currentStreak (step_stats old now pd) =
     (if is_correct pd then (case old of None \<Rightarrow> 0 | Some st \<Rightarrow> currentStreak st) + 1 else 0)"
  by (simp add: step_stats_def streaks_update_label_progress currentStreak_update_counters
      fresh_stats_def split: option.splits)

lemma bestStreak_step_stats:
  "bestStreak (step_stats old now pd) =
     (if is_correct pd
      then max (case old of None \<Rightarrow> 0 | Some st \<Rightarrow> bestStreak st)
               ((case old of None \<Rightarrow> 0 | Some st \<Rightarrow> currentStreak st) + 1)
      else (case old of None \<Rightarrow> 0 | Some st \<Rightarrow> bestStreak st))"
  by (simp add: step_stats_def streaks_update_label_progress bestStreak_update_counters
      fresh_stats_def split: option.splits)

lemma run_correct_calls:
  assumes "list_all (\<lambda>(now, pd). is_correct pd) xs"
    and "xs \<noteq> []"
    and "(case session_stats self (session_key_of model_id user_id) of None \<Rightarrow> 0 | Some st \<Rightarrow> currentStreak st) = c"
    and "(case session_stats self (session_key_of model_id user_id) of None \<Rightarrow> 0 | Some st \<Rightarrow> bestStreak st) = c"
  shows "\<exists>st. session_stats (run_updates self (key_calls model_id user_id xs)) (session_key_of model_id user_id) = Some st
           \<and> currentStreak st = c + int (length xs) \<and> bestStreak st = c + int (length xs)"
  using assms
proof (induction xs arbitrary: self c)
  case Nil
  then show ?case by simp
next
  case (Cons x xs)
  obtain now pd where x: "x = (now, pd)" by (cases x)
  let ?self' = "snd (update_progress self now model_id user_id pd)"
  let ?k = "session_key_of model_id user_id"
  from Cons.prems x have corr: "is_correct pd" and rest: "list_all (\<lambda>(now, pd). is_correct pd) xs"
    by simp_all
  have st': "session_stats ?self' ?k = Some (step_stats (session_stats self ?k) now pd)"
    by (simp add: session_stats_update_progress)
  have c': "currentStreak (step_stats (session_stats self ?k) now pd) = c + 1"
    using corr Cons.prems(3) by (simp add: currentStreak_step_stats)
  have b': "bestStreak (step_stats (session_stats self ?k) now pd) = c + 1"
    using corr Cons.prems(3,4) by (simp add: bestStreak_step_stats)
  show ?case
  proof (cases "xs = []")
    case True
    then show ?thesis using st' c' b' x by (simp add: key_calls_def)
  next
    case False
    have "\<exists>st. session_stats (run_updates ?self' (key_calls model_id user_id xs)) ?k = Some st
           \<and> currentStreak st = (c + 1) + int (length xs) \<and> bestStreak st = (c + 1) + int (length xs)"
      by (rule Cons.IH [OF rest False]) (simp_all add: st' c' b')
    then show ?thesis using x by (auto simp: key_calls_def algebra_simps)
  qed
qed

lemma view_update_progress:
  assumes "user_id \<noteq> []"
  shows "sv_currentStreak (fst (update_progress self now model_id user_id pd)) =
           currentStreak (step_stats (session_stats self (session_key_of model_id user_id)) now pd)"
    and "sv_bestStreak (fst (update_progress self now model_id user_id pd)) =
           bestStreak (step_stats (session_stats self (session_key_of model_id user_id)) now pd)"
  using assms by (simp_all add: update_progress_def get_session_stats_def step_stats_def Let_def)

text \<open>
  Claim C7. For a key without statistics, after N consecutive calls of \<^verbatim>\<open>update_progress\<close>
  with a true \<^verbatim>\<open>isCorrect\<close> followed by one call with a false one, the stored
  \<^verbatim>\<open>currentStreak\<close> is 0 and the stored \<^verbatim>\<open>bestStreak\<close> is N; for a non-empty user
  identifier the returned statistics say the same.
\<close>

theorem streak_after_miss:
  assumes fresh: "session_stats self (session_key_of model_id user_id) = None"
    and correct: "list_all (\<lambda>(now, pd). is_correct pd) xs"
    and wrong: "\<not> is_correct pd'"
  shows "(\<exists>st. session_stats
               (snd (update_progress (run_updates self (key_calls model_id user_id xs)) now' model_id user_id pd'))
               (session_key_of model_id user_id) = Some st
             \<and> currentStreak st = 0 \<and> bestStreak st = int (length xs))
         \<and> (user_id \<noteq> [] \<longrightarrow>
              sv_currentStreak
                (fst (update_progress (run_updates self (key_calls model_id user_id xs)) now' model_id user_id pd')) = 0
              \<and> sv_bestStreak
                (fst (update_progress (run_updates self (key_calls model_id user_id xs)) now' model_id user_id pd'))
                  = int (length xs))"
proof -
  let ?k = "session_key_of model_id user_id"
  let ?mid = "run_updates self (key_calls model_id user_id xs)"
  have mid: "(case session_stats ?mid ?k of None \<Rightarrow> 0 | Some st \<Rightarrow> currentStreak st) = int (length xs)
           \<and> (case session_stats ?mid ?k of None \<Rightarrow> 0 | Some st \<Rightarrow> bestStreak st) = int (length xs)"
  proof (cases "xs = []")
    case True
    then show ?thesis using fresh by (simp add: key_calls_def)
  next
    case False
    have "\<exists>st. session_stats ?mid ?k = Some st
           \<and> currentStreak st = 0 + int (length xs) \<and> bestStreak st = 0 + int (length xs)"
      by (rule run_correct_calls [OF correct False]) (simp_all add: fresh)
    then show ?thesis by auto
  qed
  have c: "currentStreak (step_stats (session_stats ?mid ?k) now' pd') = 0"
    using wrong by (simp add: currentStreak_step_stats)
  have b: "bestStreak (step_stats (session_stats ?mid ?k) now' pd') = int (length xs)"
    using wrong mid by (simp add: bestStreak_step_stats)
  show ?thesis
    using c b by (simp add: session_stats_update_progress view_update_progress)
qed

lemma streak_inv_init: "streak_inv LearningService_init"
  by (simp add: streak_inv_def LearningService_init_def)

lemma streak_inv_update_progress:
  assumes "streak_inv self"
  shows "streak_inv (snd (update_progress self now model_id user_id pd))"
  unfolding streak_inv_def
proof (intro allI impI)
  fix k st
  assume st: "session_stats (snd (update_progress self now model_id user_id pd)) k = Some st"
  show "0 \<le> currentStreak st \<and> currentStreak st \<le> bestStreak st"
  proof (cases "k = session_key_of model_id user_id")
    case False
    with st have "session_stats self k = Some st"
      by (simp add: session_stats_update_progress)
    with assms show ?thesis by (simp add: streak_inv_def)
  next
    case True
    with st have eq: "st = step_stats (session_stats self k) now pd"
      by (simp add: session_stats_update_progress)
    show ?thesis
    proof (cases "session_stats self k")
      case None
      then show ?thesis
        by (simp add: eq currentStreak_step_stats bestStreak_step_stats)
    next
      case (Some old)
      with assms have "0 \<le> currentStreak old \<and> currentStreak old \<le> bestStreak old"
        by (simp add: streak_inv_def)
      with Some show ?thesis
        by (simp add: eq currentStreak_step_stats bestStreak_step_stats)
    qed
  qed
qed

lemma streak_inv_run_updates: "streak_inv self \<Longrightarrow> streak_inv (run_updates self calls)"
proof (induction calls arbitrary: self)
  case Nil
  then show ?case by simp
next
  case (Cons c calls)
  obtain now model_id user_id pd where c: "c = (now, model_id, user_id, pd)"
    by (cases c) auto
  from Cons.prems have "streak_inv (snd (update_progress self now model_id user_id pd))"
    by (rule streak_inv_update_progress)
  then show ?case
    using c by (simp add: Cons.IH)
qed

lemma bestStreak_mono_step:
  assumes "session_stats self k = Some st"
  shows "\<exists>st'. session_stats (snd (update_progress self now model_id user_id pd)) k = Some st'
           \<and> bestStreak st \<le> bestStreak st'"
proof (cases "k = session_key_of model_id user_id")
  case False
  with assms show ?thesis by (simp add: session_stats_update_progress)
next
  case True
  with assms show ?thesis
    by (simp add: session_stats_update_progress bestStreak_step_stats)
qed

text \<open>
  Claim C9. After every sequence of calls of \<^verbatim>\<open>update_progress\<close> on a new service, the
  statistics under every key satisfy \<open>0 \<le> currentStreak \<le> bestStreak\<close>; and one more
  call, from any state, never lowers the \<^verbatim>\<open>bestStreak\<close> stored under a key.
\<close>

theorem streak_invariant:
  "(\<forall>st. session_stats (run_updates LearningService_init calls) k = Some st \<longrightarrow>
       0 \<le> currentStreak st \<and> currentStreak st \<le> bestStreak st)
   \<and> (\<forall>st. session_stats self k = Some st \<longrightarrow>
        (\<exists>st'. session_stats (snd (update_progress self now model_id user_id pd)) k = Some st'
           \<and> bestStreak st \<le> bestStreak st'))"
proof -
  have "streak_inv (run_updates LearningService_init calls)"
    by (rule streak_inv_run_updates [OF streak_inv_init])
  then show ?thesis
    using bestStreak_mono_step [of self k] by (auto simp: streak_inv_def)
qed

text \<open>
  Claim C10. \<^verbatim>\<open>reset_user_progress\<close> returns \<^verbatim>\<open>True\<close> for every model and user,
  whether or not anything is stored for them, and afterwards neither statistics nor
  comparison history are stored under their key.
\<close>

theorem reset_user_progress_clears:
  "fst (reset_user_progress self model_id user_id) = True
   \<and> session_stats (snd (reset_user_progress self model_id user_id)) (session_key_of model_id user_id) = None
   \<and> comparison_cache (snd (reset_user_progress self model_id user_id)) (session_key_of model_id user_id) = None"
  by (auto simp: reset_user_progress_def Let_def)

theorem streak_after_miss_witness:
  "(\<exists>st. session_stats
       (snd (update_progress
          (run_updates LearningService_init (key_calls ''m'' ''u'' [(''t1'', hit), (''t2'', hit), (''t3'', hit)]))
          ''t4'' ''m'' ''u'' miss)) ''m_u'' = Some st
     \<and> currentStreak st = 0 \<and> bestStreak st = 3)
   \<and> sv_currentStreak
       (fst (update_progress
          (run_updates LearningService_init (key_calls ''m'' ''u'' [(''t1'', hit), (''t2'', hit), (''t3'', hit)]))
          ''t4'' ''m'' ''u'' miss)) = 0
   \<and> sv_bestStreak
       (fst (update_progress
          (run_updates LearningService_init (key_calls ''m'' ''u'' [(''t1'', hit), (''t2'', hit), (''t3'', hit)]))
          ''t4'' ''m'' ''u'' miss)) = 3"
  using streak_after_miss [of LearningService_init "''m''" "''u''"
      "[(''t1'', hit), (''t2'', hit), (''t3'', hit)]" miss "''t4''"]
  by (simp add: LearningService_init_def session_key_of_def is_correct_def hit_def miss_def)

theorem streak_invariant_witness:
  "(\<exists>st. session_stats (run_updates LearningService_init [(''t1'', ''m'', ''u'', hit), (''t2'', ''m'', ''u'', miss)])
          ''m_u'' = Some st \<and> 0 \<le> currentStreak st \<and> currentStreak st \<le> bestStreak st)
   \<and> (\<exists>st st'. session_stats (run_updates LearningService_init [(''t1'', ''m'', ''u'', hit)]) ''m_u'' = Some st
        \<and> session_stats (snd (update_progress (run_updates LearningService_init [(''t1'', ''m'', ''u'', hit)])
             ''t2'' ''m'' ''u'' miss)) ''m_u'' = Some st'
        \<and> bestStreak st \<le> bestStreak st')"
  using streak_invariant [of "[(''t1'', ''m'', ''u'', hit), (''t2'', ''m'', ''u'', miss)]" "''m_u''"
      "run_updates LearningService_init [(''t1'', ''m'', ''u'', hit)]" "''t2''" "''m''" "''u''" miss]
  by (simp add: session_stats_update_progress session_key_of_def LearningService_init_def)

theorem reset_user_progress_clears_witness:
  "fst (reset_user_progress (snd (update_progress LearningService_init ''t1'' ''m'' ''u'' hit)) ''m'' ''u'') = True
   \<and> session_stats (snd (update_progress LearningService_init ''t1'' ''m'' ''u'' hit)) ''m_u'' \<noteq> None
   \<and> session_stats (snd (reset_user_progress (snd (update_progress LearningService_init ''t1'' ''m'' ''u'' hit))
        ''m'' ''u'')) ''m_u'' = None
   \<and> comparison_cache (snd (reset_user_progress (snd (update_progress LearningService_init ''t1'' ''m'' ''u'' hit))
        ''m'' ''u'')) ''m_u'' = None"
  using reset_user_progress_clears [of "snd (update_progress LearningService_init ''t1'' ''m'' ''u'' hit)" "''m''" "''u''"]
  by (simp add: session_stats_update_progress session_key_of_def)

subsection \<open>Feature extractor and landmark similarity: the claims\<close>

text \<open>
  Claim C2, as amended. For a landmark set of exactly 21 points the feature extractor
  either raises \<^verbatim>\<open>OverflowError\<close> (the square of a coordinate difference of a fingertip
  is too large for a float) or returns 78 values: the first 78 of the 83 raw values (63
  wrist-relative coordinates, 5 tip-to-base distances, 5 tip-to-wrist distances, 10 joint
  angles). It returns whenever no coordinate exceeds \<open>2 ^ 510\<close> in magnitude. A list shorter
  than 78 would be padded with zeros to 78. The extractor is a function of its arguments
  alone (it reads no attribute of the service), so that two calls on the same input agree.
\<close>

theorem extract_features_fixed_length:
  assumes "length landmarks = 21"
  shows "(extract_features_fixed np landmarks = Inl overflow_error
          \<or> (\<exists>features tip_base tip_wrist.
                extract_features_fixed np landmarks = Inr features
                \<and> length features = 78
                \<and> tip_base_distances (coords_of landmarks) = Inr tip_base
                \<and> tip_wrist_distances (coords_of landmarks) = Inr tip_wrist
                \<and> features = take 78 (wrist_relative (coords_of landmarks) @ tip_base @ tip_wrist
                                         @ joint_angles np (coords_of landmarks))
                \<and> length (wrist_relative (coords_of landmarks)) = 63
                \<and> length tip_base = 5 \<and> length tip_wrist = 5
                \<and> length (joint_angles np (coords_of landmarks)) = 10))
         \<and> (small_landmarks landmarks \<longrightarrow>
              (\<exists>features. extract_features_fixed np landmarks = Inr features \<and> length features = 78))
         \<and> (\<forall>fs. length fs < 78 \<longrightarrow>
               take 78 (pad78 fs) = fs @ replicate (78 - length fs) (Fin 0)
               \<and> length (take 78 (pad78 fs)) = 78)
         \<and> (\<forall>landmarks'. landmarks' = landmarks \<longrightarrow>
               extract_features_fixed np landmarks' = extract_features_fixed np landmarks)"
proof -
  let ?cs = "coords_of landmarks"
  have len: "length ?cs = 21"
    using assms by (simp add: coords_of_def)
  have ex: "extract_features_fixed np landmarks =
      (case raw_features np ?cs of Inl e \<Rightarrow> Inl e | Inr f \<Rightarrow> Inr (take 78 f))"
    by (rule extract_features_fixed_21 [OF assms])
  have ret: "\<exists>tip_base tip_wrist.
        length features = 78
        \<and> tip_base_distances ?cs = Inr tip_base \<and> tip_wrist_distances ?cs = Inr tip_wrist
        \<and> features = take 78 (wrist_relative ?cs @ tip_base @ tip_wrist @ joint_angles np ?cs)
        \<and> length (wrist_relative ?cs) = 63 \<and> length tip_base = 5 \<and> length tip_wrist = 5
        \<and> length (joint_angles np ?cs) = 10"
    if r: "extract_features_fixed np landmarks = Inr features" for features
  proof -
    obtain f where f: "raw_features np ?cs = Inr f" and ft: "features = take 78 f"
      using r ex by (auto split: sum.splits)
    obtain tb tw where t: "tip_base_distances ?cs = Inr tb" "tip_wrist_distances ?cs = Inr tw"
      "length tb = 5" "length tw = 5" "f = wrist_relative ?cs @ tb @ tw @ joint_angles np ?cs"
      using raw_features_Inr [OF f] by blast
    have "length f = 83" using length_raw_features [OF f] len by simp
    then have "length features = 78" by (simp add: ft)
    then show ?thesis
      using t ft len by (simp add: length_wrist_relative length_joint_angles)
  qed
  have first: "extract_features_fixed np landmarks = Inl overflow_error
      \<or> (\<exists>features. extract_features_fixed np landmarks = Inr features)"
  proof (cases "raw_features np ?cs")
    case (Inl e)
    then show ?thesis using raw_features_Inl [OF Inl] ex by simp
  next
    case (Inr f)
    then show ?thesis using ex by simp
  qed
  have small: "\<exists>features. extract_features_fixed np landmarks = Inr features \<and> length features = 78"
    if "small_landmarks landmarks"
    using extract_features_fixed_small [OF assms that, of np] ret by blast
  have pad: "take 78 (pad78 fs) = fs @ replicate (78 - length fs) (Fin 0) \<and> length (take 78 (pad78 fs)) = 78"
    if "length fs < 78" for fs
    using that by (simp add: pad78_eq)
  show ?thesis
    using first ret small pad by blast
qed

lemma small_origin_hand: "length origin_hand = 21 \<and> small_landmarks origin_hand"
  by (simp add: origin_hand_def small_landmarks_def coords_of_def list_all_iff small_coord_def
      lm_get_def)

theorem extract_features_fixed_length_witness:
  "\<exists>features. extract_features_fixed numpy_sequential open_hand = Inr features \<and> length features = 78"
  using extract_features_fixed_length [of open_hand numpy_sequential] open_hand_valid small_open_hand
  by simp

lemma rnd64_float_2_600: "rnd64 float_2_600 = float_2_600"
  by (rule rnd64_representable [of _ 1 600]) (simp_all add: float_2_600_def)

lemma euclid_huge: "euclid (float_2_600, 0, 0) (0, 0, 0) = Inl overflow_error"
proof -
  have "\<not> overflow_threshold \<le> float_2_600" "\<not> float_2_600 \<le> - overflow_threshold"
    by (simp_all add: overflow_threshold_def float_2_600_def)
  then have "fsub (Fin float_2_600) (Fin 0) = Fin float_2_600"
    by (simp add: fsub_def fl_def rnd64_float_2_600)
  moreover have "overflow_threshold \<le> float_2_600 * float_2_600"
    by (simp add: overflow_threshold_def float_2_600_def)
  ultimately show ?thesis
    by (simp add: euclid_def vsub_def)
qed

text \<open>
  The claim as stated fails for a hand with the coordinate \<open>2 ^ 600\<close> at a fingertip: the
  extractor raises \<^verbatim>\<open>OverflowError\<close>.
\<close>

theorem extract_overflow_counterexample:
  "length huge_hand = 21 \<and> extract_features_fixed numpy_sequential huge_hand = Inl overflow_error"
proof -
  have len: "length huge_hand = 21"
    by (simp add: huge_hand_def origin_hand_def)
  have c4: "coords_of huge_hand ! 4 = (float_2_600, 0, 0)"
    by (simp add: huge_hand_def origin_hand_def coords_of_def lm_get_def map_update)
  have c3: "coords_of huge_hand ! 3 = (0, 0, 0)"
    by (simp add: huge_hand_def origin_hand_def coords_of_def lm_get_def map_update)
  have "tip_base_distances (coords_of huge_hand) = Inl overflow_error"
    by (simp add: tip_base_distances_def finger_tips_def finger_bases_def c4 c3 euclid_huge)
  then have "raw_features numpy_sequential (coords_of huge_hand) = Inl overflow_error"
    by (simp add: raw_features_def)
  then show ?thesis
    using len by (simp add: extract_features_fixed_21)
qed

text \<open>
  Claim C5, as amended. When the coordinates of the moved points are the exact sums of the
  coordinates and the offset (the additions that form them do not round), moving all 21
  points by one offset leaves the result of the extractor as it is: the same exception, or
  the same feature vector, whose first 63 entries are the wrist-relative coordinates.
\<close>

theorem wrist_relative_translation_invariant:
  assumes "length landmarks = 21"
  shows "extract_features_fixed np (map (translate d) landmarks) = extract_features_fixed np landmarks
         \<and> (\<forall>features. extract_features_fixed np landmarks = Inr features \<longrightarrow>
               (\<exists>features'. extract_features_fixed np (map (translate d) landmarks) = Inr features'
                   \<and> take 63 features' = take 63 features)
               \<and> take 63 features = wrist_relative (coords_of landmarks))
         \<and> (small_landmarks landmarks \<longrightarrow>
               (\<exists>features. extract_features_fixed np landmarks = Inr features))"
  using extract_features_fixed_translate [of np d landmarks]
    take63_extract [OF assms, of np] extract_features_fixed_small [OF assms, of np]
  by auto

theorem wrist_relative_translation_invariant_witness:
  "feature_at 3 (extract_features_fixed numpy_sequential open_hand) = Inr (Fin (1 / 8))
   \<and> feature_at 3 (extract_features_fixed numpy_sequential (map (translate (1, 2, 3)) open_hand))
       = Inr (Fin (1 / 8))
   \<and> (\<exists>features. extract_features_fixed numpy_sequential open_hand = Inr features
         \<and> extract_features_fixed numpy_sequential (map (translate (1, 2, 3)) open_hand) = Inr features)"
proof -
  have "feature_at 3 (extract_features_fixed numpy_sequential open_hand) = Inr (Fin (1 / 8))"
    using feature_at_3 [of open_hand numpy_sequential] open_hand_valid small_open_hand
    by (simp add: coords_of_open_hand replicate_20 wrist_relative_nth_3 vsub_def fsub_eighth)
  then show ?thesis
    using wrist_relative_translation_invariant [of open_hand numpy_sequential "(1, 2, 3)"]
      open_hand_valid small_open_hand
    by auto
qed

lemma rnd64_float_0_1: "rnd64 float_0_1 = float_0_1"
  by (rule rnd64_representable [of _ 3602879701896397 "- 55"])
     (simp_all add: float_0_1_def power_int_minus)

lemma rnd64_float_0_3: "rnd64 float_0_3 = float_0_3"
  by (rule rnd64_representable [of _ 5404319552844595 "- 54"])
     (simp_all add: float_0_3_def power_int_minus)

lemma rnd64_float_0_1_up: "rnd64 float_0_1_up = float_0_1_up"
  by (rule rnd64_representable [of _ 1801439850948199 "- 54"])
     (simp_all add: float_0_1_up_def power_int_minus)

lemma rnd64_sum_0_1_0_3: "rnd64 (float_0_1 + float_0_3) = float_0_4"
  unfolding float_0_1_def float_0_3_def float_0_4_def
proof -
  let ?x = "3602879701896397 / 2 ^ 55 + 5404319552844595 / 2 ^ 54 :: real"
  have "rnd64 ?x = of_int (round_half_even (?x / 2 powi (- 2 - 52))) * 2 powi (- 2 - 52)"
    by (rule rnd64_binade) (simp_all add: power_int_minus)
  moreover have "?x / 2 powi (- 2 - 52) = 14411518807585587 / 2"
    by (simp add: power_int_minus)
  moreover have "round_half_even (14411518807585587 / 2) = 7205759403792794"
    by (simp add: round_half_even_def Let_def)
  ultimately show "rnd64 ?x = 3602879701896397 / 2 ^ 53"
    by (simp add: power_int_minus)
qed

lemma diff_0_4_0_3: "float_0_4 - float_0_3 = float_0_1_up"
  by (simp add: float_0_4_def float_0_3_def float_0_1_up_def)

lemma float_0_1_up_neq: "float_0_1_up \<noteq> float_0_1"
  by (simp add: float_0_1_up_def float_0_1_def)

lemma fsub_0_4_0_3: "fsub (Fin float_0_4) (Fin float_0_3) = Fin float_0_1_up"
proof -
  have "\<not> overflow_threshold \<le> float_0_1_up" "\<not> float_0_1_up \<le> - overflow_threshold"
    by (simp_all add: overflow_threshold_def float_0_1_up_def)
  then show ?thesis
    by (simp add: fsub_def fl_def diff_0_4_0_3 rnd64_float_0_1_up)
qed

lemma fsub_0_1_0: "fsub (Fin float_0_1) (Fin 0) = Fin float_0_1"
proof -
  have "\<not> overflow_threshold \<le> float_0_1" "\<not> float_0_1 \<le> - overflow_threshold"
    by (simp_all add: overflow_threshold_def float_0_1_def)
  then show ?thesis
    by (simp add: fsub_def fl_def rnd64_float_0_1)
qed

lemma coords_of_tenth_hand:
  "coords_of tenth_hand = (0, 0, 0) # replicate 20 (float_0_1, 0, 0)"
  by (simp add: tenth_hand_def coords_of_def lm_get_def)

lemma lm_get_translate_float:
  "lm_get (translate_float (dx, dy, dz) lm) ''x'' = rnd64 (lm_get lm ''x'' + dx)"
  "lm_get (translate_float (dx, dy, dz) lm) ''y'' = rnd64 (lm_get lm ''y'' + dy)"
  "lm_get (translate_float (dx, dy, dz) lm) ''z'' = rnd64 (lm_get lm ''z'' + dz)"
  by (simp_all add: translate_float_def lm_get_def)

lemma coords_of_moved_tenth_hand:
  "coords_of (map (translate_float offset_0_3) tenth_hand) =
     (float_0_3, float_0_3, float_0_3) # replicate 20 (float_0_4, float_0_3, float_0_3)"
proof -
  have a: "lm_get [''x'' \<mapsto> 0, ''y'' \<mapsto> 0, ''z'' \<mapsto> 0] k = 0" if "k \<in> {''x'', ''y'', ''z''}" for k
    using that by (auto simp: lm_get_def)
  have b: "lm_get [''x'' \<mapsto> float_0_1, ''y'' \<mapsto> 0, ''z'' \<mapsto> 0] ''x'' = float_0_1"
    "lm_get [''x'' \<mapsto> float_0_1, ''y'' \<mapsto> 0, ''z'' \<mapsto> 0] ''y'' = 0"
    "lm_get [''x'' \<mapsto> float_0_1, ''y'' \<mapsto> 0, ''z'' \<mapsto> 0] ''z'' = 0"
    by (simp_all add: lm_get_def)
  show ?thesis
    by (simp add: tenth_hand_def coords_of_def offset_0_3_def lm_get_translate_float a b
        rnd64_float_0_3 rnd64_sum_0_1_0_3)
qed

lemma small_tenth_hand: "length tenth_hand = 21 \<and> small_landmarks tenth_hand"
  unfolding small_landmarks_def coords_of_tenth_hand
  by (simp add: tenth_hand_def small_coord_def float_0_1_def list_all_iff)

lemma small_moved_tenth_hand:
  "length (map (translate_float offset_0_3) tenth_hand) = 21
   \<and> small_landmarks (map (translate_float offset_0_3) tenth_hand)"
  unfolding small_landmarks_def coords_of_moved_tenth_hand
  by (simp add: tenth_hand_def small_coord_def float_0_3_def float_0_4_def list_all_iff)

lemma first_63_feature_at:
  assumes "first_63 r = first_63 r'" "feature_at 3 r = Inr a" "feature_at 3 r' = Inr b"
  shows "a = b"
proof -
  obtain f f' where r: "r = Inr f" "r' = Inr f'"
    using assms(2,3) by (cases r; cases r') (auto simp: feature_at_def)
  then have "take 63 f = take 63 f'"
    using assms(1) by (simp add: first_63_def)
  then have "take 63 f ! 3 = take 63 f' ! 3" by simp
  then have "f ! 3 = f' ! 3" by simp
  then show ?thesis
    using assms(2,3) r by (simp add: feature_at_def)
qed

text \<open>
  The claim as stated fails when the moved points are formed in floats: for the hand whose
  other points lie 0.1 from the wrist, moved by 0.3 along each axis, the fourth feature
  changes from 0.1 to 0.10000000000000003 (0.1 + 0.3 rounds to 0.4, and 0.4 - 0.3 is not
  0.1).
\<close>

theorem float_translation_counterexample:
  "feature_at 3 (extract_features_fixed numpy_sequential tenth_hand) = Inr (Fin float_0_1)
   \<and> feature_at 3 (extract_features_fixed numpy_sequential (map (translate_float offset_0_3) tenth_hand))
       = Inr (Fin float_0_1_up)
   \<and> first_63 (extract_features_fixed numpy_sequential (map (translate_float offset_0_3) tenth_hand))
       \<noteq> first_63 (extract_features_fixed numpy_sequential tenth_hand)"
proof -
  let ?np = numpy_sequential
  have a: "feature_at 3 (extract_features_fixed ?np tenth_hand) = Inr (Fin float_0_1)"
    using feature_at_3 [of tenth_hand ?np] small_tenth_hand
    by (simp add: coords_of_tenth_hand replicate_20 wrist_relative_nth_3 vsub_def fsub_0_1_0)
  have b: "feature_at 3 (extract_features_fixed ?np (map (translate_float offset_0_3) tenth_hand))
      = Inr (Fin float_0_1_up)"
    using feature_at_3 [of "map (translate_float offset_0_3) tenth_hand" ?np] small_moved_tenth_hand
    by (simp add: coords_of_moved_tenth_hand replicate_20 wrist_relative_nth_3 vsub_def fsub_0_4_0_3)
  have "Fin float_0_1_up \<noteq> Fin float_0_1"
    using float_0_1_up_neq by simp
  then have "first_63 (extract_features_fixed ?np (map (translate_float offset_0_3) tenth_hand))
       \<noteq> first_63 (extract_features_fixed ?np tenth_hand)"
    using first_63_feature_at [OF _ b a] by blast
  with a b show ?thesis by simp
qed

lemma point_distance_self: "point_distance lm lm = 0"
  by (simp add: point_distance_def)

lemma avg_distance_self: "avg_distance landmarks landmarks = 0"
  by (simp add: avg_distance_def point_distance_self)

lemma compute_landmark_similarity_eq:
  assumes "length landmarks1 = 21" "length landmarks2 = 21"
    and "list_all has_xyz landmarks1" "list_all has_xyz landmarks2"
  shows "compute_landmark_similarity landmarks1 landmarks2 =
           min 1 (max 0 (1 - avg_distance landmarks1 landmarks2 * 10))"
  using assms by (simp add: compute_landmark_similarity_def avg_distance_def Let_def)

lemma compute_landmark_similarity_range:
  "0 \<le> compute_landmark_similarity landmarks1 landmarks2
   \<and> compute_landmark_similarity landmarks1 landmarks2 \<le> 1"
  by (simp add: compute_landmark_similarity_def Let_def)

text \<open>
  Claim C8. For landmark sets of 21 points that carry x, y and z, the similarity of a set
  with itself is 1 (the average distance is 0), the similarity of two sets is
  \<open>clamp (1 - avg_distance * 10) 0 1\<close>, and it lies between 0 and 1.
\<close>

theorem landmark_similarity:
  assumes "length landmarks1 = 21" "length landmarks2 = 21"
    and "list_all has_xyz landmarks1" "list_all has_xyz landmarks2"
  shows "compute_landmark_similarity landmarks1 landmarks1 = 1
         \<and> avg_distance landmarks1 landmarks1 = 0
         \<and> compute_landmark_similarity landmarks1 landmarks2 =
             clamp (1 - avg_distance landmarks1 landmarks2 * 10) 0 1
         \<and> 0 \<le> compute_landmark_similarity landmarks1 landmarks2
         \<and> compute_landmark_similarity landmarks1 landmarks2 \<le> 1"
proof -
  have self: "compute_landmark_similarity landmarks1 landmarks1 = 1"
    using compute_landmark_similarity_eq [OF assms(1) assms(1) assms(3) assms(3)]
    by (simp add: avg_distance_self)
  have "min 1 (max 0 v) = clamp v 0 1" for v :: real
    by (simp add: clamp_def)
  then have eq: "compute_landmark_similarity landmarks1 landmarks2 =
             clamp (1 - avg_distance landmarks1 landmarks2 * 10) 0 1"
    using compute_landmark_similarity_eq [OF assms] by simp
  show ?thesis
    using self eq compute_landmark_similarity_range [of landmarks1 landmarks2]
    by (simp add: avg_distance_self)
qed

lemma point_distance_shifted:
  "point_distance [''x'' \<mapsto> 0, ''y'' \<mapsto> 0, ''z'' \<mapsto> 0] [''x'' \<mapsto> 3 / 100, ''y'' \<mapsto> 1 / 25, ''z'' \<mapsto> 0] = 1 / 20"
proof -
  have "(3 / 100)\<^sup>2 + (1 / 25)\<^sup>2 = ((1 / 20)\<^sup>2 :: real)"
    by (simp add: power2_eq_square)
  then have "sqrt ((3 / 100)\<^sup>2 + (1 / 25)\<^sup>2) = sqrt ((1 / 20)\<^sup>2)"
    by (rule arg_cong)
  then have "sqrt ((3 / 100)\<^sup>2 + (1 / 25)\<^sup>2) = 1 / 20"
    by simp
  then show ?thesis
    by (simp add: point_distance_def)
qed

theorem landmark_similarity_witness:
  "compute_landmark_similarity origin_hand origin_hand = 1
   \<and> compute_landmark_similarity origin_hand shifted_hand = clamp (1 - avg_distance origin_hand shifted_hand * 10) 0 1
   \<and> compute_landmark_similarity origin_hand shifted_hand = 1 / 2"
proof -
  have ev: "[0 ..< 21] = [0, 1, 2, 3, 4, 5, 6, 7, 8, 9, 10, 11, 12, 13, 14, 15, 16, 17, 18, 19, 20 :: nat]"
    by code_simp
  have nths: "i < 21 \<Longrightarrow> origin_hand ! i = [''x'' \<mapsto> 0, ''y'' \<mapsto> 0, ''z'' \<mapsto> 0]
       \<and> shifted_hand ! i = [''x'' \<mapsto> 3 / 100, ''y'' \<mapsto> 1 / 25, ''z'' \<mapsto> 0]" for i
    by (simp add: origin_hand_def shifted_hand_def)
  have "avg_distance origin_hand shifted_hand = 1 / 20"
    unfolding avg_distance_def ev by (simp add: nths point_distance_shifted)
  then have "clamp (1 - avg_distance origin_hand shifted_hand * 10) 0 1 = 1 / 2"
    by (simp add: clamp_def)
  moreover have "length origin_hand = 21" "length shifted_hand = 21"
     "list_all has_xyz origin_hand" "list_all has_xyz shifted_hand"
    by (simp_all add: origin_hand_def shifted_hand_def has_xyz_def list_all_iff)
  ultimately show ?thesis
    using landmark_similarity [of origin_hand shifted_hand] by simp
qed

subsection \<open>Rejection policy\<close>

lemma exp_five_halves_upper: "exp (5 / 2 :: real) < 129 / 10"
proof -
  have "exp (1 / 32 :: real) \<le> 1 + 1 / 32 + (1 / 32)\<^sup>2"
    by (rule exp_bound) simp_all
  then have small: "exp (1 / 32 :: real) \<le> 1057 / 1024"
    by (simp add: power2_eq_square)
  have "exp (5 / 2 :: real) = exp (of_nat 80 * (1 / 32))"
    by simp
  also have "\<dots> = exp (1 / 32) ^ 80"
    by (rule exp_of_nat_mult)
  also have "\<dots> \<le> (1057 / 1024) ^ 80"
    by (rule power_mono [OF small]) simp
  also have "\<dots> < (129 / 10 :: real)"
    by (simp add: power_divide)
  finally show ?thesis .
qed

lemma exp_five_halves_lower: "(121 / 10 :: real) < exp (5 / 2)"
proof -
  have "1 + 1 / 8 + (1 / 8)\<^sup>2 / 2 \<le> exp (1 / 8 :: real)"
    by (rule exp_lower_Taylor_quadratic) simp
  then have small: "145 / 128 \<le> exp (1 / 8 :: real)"
    by (simp add: power2_eq_square)
  have "(121 / 10 :: real) < (145 / 128) ^ 20"
    by (simp add: power_divide)
  also have "\<dots> \<le> exp (1 / 8) ^ 20"
    by (rule power_mono [OF small]) simp
  also have "\<dots> = exp (of_nat 20 * (1 / 8 :: real))"
    by (rule exp_of_nat_mult [symmetric])
  also have "\<dots> = exp (5 / 2)"
    by simp
  finally show ?thesis .
qed

lemma argmax_from_less:
  "best_i < i \<Longrightarrow> argmax_from xs i best_i best < i + length xs"
proof (induction xs arbitrary: i best_i best)
  case Nil
  then show ?case by simp
next
  case (Cons x xs)
  have "argmax_from xs (Suc i) i x < Suc i + length xs"
    by (rule Cons.IH) simp
  moreover have "argmax_from xs (Suc i) best_i best < Suc i + length xs"
    using Cons.prems by (intro Cons.IH) simp
  ultimately show ?case by simp
qed

lemma argmax_from_nth:
  "i = length ys \<Longrightarrow> best_i < i \<Longrightarrow> ys ! best_i = best \<Longrightarrow>
     (ys @ xs) ! argmax_from xs i best_i best = fold max xs best"
proof (induction xs arbitrary: ys i best_i best)
  case Nil
  then show ?case by (simp add: nth_append)
next
  case (Cons x xs)
  show ?case
  proof (cases "best < x")
    case True
    have "((ys @ [x]) @ xs) ! argmax_from xs (Suc i) i x = fold max xs x"
      by (rule Cons.IH) (simp_all add: Cons.prems nth_append)
    moreover from True have "max x best = x" by simp
    ultimately show ?thesis using True by simp
  next
    case False
    have "((ys @ [x]) @ xs) ! argmax_from xs (Suc i) best_i best = fold max xs best"
      using Cons.prems by (intro Cons.IH) (simp_all add: nth_append)
    moreover from False have "max x best = best" by simp
    ultimately show ?thesis using False by simp
  qed
qed

lemma np_argmax_less: "p \<noteq> [] \<Longrightarrow> np_argmax p < length p"
  using argmax_from_less [of 0 1 "tl p" "hd p"] by (cases p) (simp_all add: np_argmax_def)

lemma nth_np_argmax: "p \<noteq> [] \<Longrightarrow> p ! np_argmax p = np_max p"
proof (cases p)
  case Nil
  then show "p \<noteq> [] \<Longrightarrow> ?thesis" by simp
next
  case (Cons x xs)
  have "([x] @ xs) ! argmax_from xs 1 0 x = fold max xs x"
    by (rule argmax_from_nth) simp_all
  with Cons show ?thesis by (simp add: np_argmax_def np_max_def)
qed

lemma fold_max_ge: "(b::real) \<le> fold max xs b \<and> (\<forall>x \<in> set xs. x \<le> fold max xs b)"
proof (induction xs arbitrary: b)
  case Nil
  then show ?case by simp
next
  case (Cons a xs)
  have "max a b \<le> fold max xs (max a b)" and "\<forall>x \<in> set xs. x \<le> fold max xs (max a b)"
    using Cons.IH [of "max a b"] by simp_all
  then show ?case by auto
qed

lemma np_max_ge: "x \<in> set p \<Longrightarrow> x \<le> np_max p"
  using fold_max_ge [of "hd p" "tl p"] by (cases p) (auto simp: np_max_def)

lemma entropy_replicate:
  "calculate_entropy_threshold (replicate n c) =
     - (real n * ((c + 1 / 10 ^ 10) * ln (c + 1 / 10 ^ 10)))"
  by (simp add: calculate_entropy_threshold_def sum_list_replicate)

lemma entropy_uniform:
  assumes "0 < K"
  shows "calculate_entropy_threshold (replicate K (1 / real K)) =
           (1 + real K / 10 ^ 10) * (- ln (1 / real K + 1 / 10 ^ 10))"
proof -
  have "real K * (1 / real K + 1 / 10 ^ 10) = 1 + real K / 10 ^ 10"
    using assms by (simp add: distrib_left)
  then have "real K * ((1 / real K + 1 / 10 ^ 10) * ln (1 / real K + 1 / 10 ^ 10)) =
      (1 + real K / 10 ^ 10) * ln (1 / real K + 1 / 10 ^ 10)"
    by (simp only: mult.assoc [symmetric])
  then show ?thesis
    by (simp only: entropy_replicate mult_minus_right)
qed

lemma entropy_uniform_large:
  assumes "13 \<le> K"
  shows "5 / 2 < calculate_entropy_threshold (replicate K (1 / real K))"
proof -
  let ?q = "1 / real K + 1 / 10 ^ 10 :: real"
  have K: "13 \<le> real K" using assms by simp
  then have "1 / real K \<le> 1 / 13"
    by (simp add: field_simps)
  then have q_le: "?q \<le> 1 / 13 + 1 / 10 ^ 10" by simp
  have q_pos: "0 < ?q" using K by (simp add: add_pos_pos)
  have "(1 / 13 + 1 / 10 ^ 10) * (129 / 10 :: real) < 1" by simp
  moreover have "(1 / 13 + 1 / 10 ^ 10) * exp (5 / 2 :: real) \<le> (1 / 13 + 1 / 10 ^ 10) * (129 / 10)"
    using exp_five_halves_upper by (intro mult_left_mono) simp_all
  ultimately have "(1 / 13 + 1 / 10 ^ 10) * exp (5 / 2 :: real) < 1" by linarith
  with q_le have "?q * exp (5 / 2) < 1"
    by (smt (verit) exp_gt_zero mult_right_mono)
  then have "?q < exp (- (5 / 2))"
    by (simp add: exp_minus field_simps)
  then have "ln ?q < ln (exp (- (5 / 2)))"
    using q_pos by (subst ln_less_cancel_iff) simp_all
  then have ln_q: "5 / 2 < - ln ?q" by simp
  have "1 * (- ln ?q) \<le> (1 + real K / 10 ^ 10) * (- ln ?q)"
    using ln_q by (intro mult_right_mono) simp_all
  then have "- ln ?q \<le> (1 + real K / 10 ^ 10) * (- ln ?q)"
    by (simp only: mult_1)
  with ln_q have "5 / 2 < (1 + real K / 10 ^ 10) * (- ln ?q)"
    by (rule less_le_trans)
  moreover have "0 < K" using assms by simp
  ultimately show ?thesis
    by (simp only: entropy_uniform)
qed

lemma ln_12_upper: "ln (12 :: real) \<le> 5 / 2 - 1 / 125"
proof -
  have "(1 / 120 :: real) - (1 / 120)\<^sup>2 \<le> ln (1 + 1 / 120)"
    by (rule ln_one_plus_pos_lower_bound) simp_all
  then have a: "(1 / 125 :: real) \<le> ln (121 / 120)"
    by (simp add: power2_eq_square)
  have "ln (121 / 10 :: real) < ln (exp (5 / 2))"
    using exp_five_halves_lower by (subst ln_less_cancel_iff) simp_all
  then have b: "ln (121 / 10 :: real) < 5 / 2" by simp
  have "ln (12 * (121 / 120) :: real) = ln 12 + ln (121 / 120)"
    by (rule ln_mult_pos) simp_all
  then have "ln (121 / 10 :: real) = ln 12 + ln (121 / 120)" by simp
  with a b show ?thesis by linarith
qed

lemma entropy_uniform_small:
  assumes "0 < K" "K \<le> 12"
  shows "calculate_entropy_threshold (replicate K (1 / real K)) \<le> 5 / 2"
proof -
  let ?q = "1 / real K + 1 / 10 ^ 10 :: real"
  let ?a = "1 + real K / 10 ^ 10 :: real"
  have K: "0 < real K" "real K \<le> 12" using assms by simp_all
  have q_pos: "0 < ?q" using K by (simp add: add_pos_pos)
  have "1 / 12 \<le> 1 / real K"
    using K by (simp add: field_simps)
  then have "1 / 12 \<le> ?q" by simp
  then have "ln (1 / 12 :: real) \<le> ln ?q"
    by (intro ln_mono) simp_all
  then have "- ln ?q \<le> ln 12"
    by (simp add: ln_div)
  with ln_12_upper have L: "- ln ?q \<le> 5 / 2 - 1 / 125" by linarith
  have a: "1 \<le> ?a" "?a \<le> 1 + 12 / 10 ^ 10" using K by simp_all
  have "?a * (- ln ?q) \<le> 5 / 2"
  proof (cases "0 \<le> - ln ?q")
    case True
    have "?a * (- ln ?q) \<le> (1 + 12 / 10 ^ 10) * (- ln ?q)"
      using a True by (intro mult_right_mono) simp_all
    also have "\<dots> \<le> (1 + 12 / 10 ^ 10) * (5 / 2 - 1 / 125)"
      using L by (intro mult_left_mono) simp_all
    also have "\<dots> \<le> 5 / 2" by simp
    finally show ?thesis .
  next
    case False
    then have "?a * (- ln ?q) \<le> 0"
      using a by (intro mult_nonneg_nonpos) simp_all
    then show ?thesis by linarith
  qed
  then show ?thesis
    using assms(1) by (simp only: entropy_uniform)
qed

lemma decide_cases:
  assumes "p \<noteq> []" "np_argmax p < length class_names"
  shows "decide class_names p =
           (if rejects class_names p then Inr (rejection_result class_names p)
            else Inr (accepted_result class_names p))"
  using assms
  by (simp add: decide_def rejects_def rejection_result_def accepted_result_def renormalized_def Let_def)

lemma funpow_max_self: "(max c ^^ n) (c::real) = c"
  by (induction n) simp_all

lemma np_max_replicate: "0 < n \<Longrightarrow> np_max (replicate n c) = c"
  by (cases n) (simp_all add: np_max_def funpow_max_self)

lemma decide_uniform:
  assumes "3 \<le> K" "length class_names = K"
  shows "decide class_names (replicate K (1 / real K)) =
           Inr (rejection_result class_names (replicate K (1 / real K)))"
proof -
  let ?p = "replicate K (1 / real K)"
  have ne: "?p \<noteq> []" using assms by auto
  have "np_argmax ?p < length ?p" by (rule np_argmax_less [OF ne])
  then have idx: "np_argmax ?p < length class_names" using assms by simp
  have "3 \<le> real K" using assms by simp
  then have "1 / real K < 1 / 2" by (simp add: field_simps)
  then have "np_max ?p < 1 / 2" using assms by (simp add: np_max_replicate)
  then have "rejects class_names ?p" by (simp add: rejects_def)
  then show ?thesis by (simp add: decide_cases [OF ne idx])
qed

text \<open>
  Claim C3, as amended. The entropy that \<^verbatim>\<open>_calculate_entropy_threshold\<close> computes on the
  uniform vector of length K exceeds 2.5 exactly when K is at least 13 (it is about \<open>ln K\<close>,
  and \<open>ln 12 < 2.5 < ln 13\<close>). A uniform vector of length K from 3 on is rejected all the
  same, its maximum \<open>1 / K\<close> being below 0.5; and every non-empty vector whose maximum is
  below 0.5 is rejected whatever its entropy.
\<close>

theorem entropy_rejection_threshold:
  "(0 < K \<longrightarrow> (5 / 2 < calculate_entropy_threshold (replicate K (1 / real K))) = (13 \<le> K))
   \<and> (3 \<le> K \<and> length class_names = K \<longrightarrow>
        decide class_names (replicate K (1 / real K)) =
          Inr (rejection_result class_names (replicate K (1 / real K))))
   \<and> (p \<noteq> [] \<and> np_argmax p < length class_names \<and> np_max p < 1 / 2 \<longrightarrow>
        decide class_names p = Inr (rejection_result class_names p))"
proof (intro conjI impI)
  assume "0 < K"
  show "(5 / 2 < calculate_entropy_threshold (replicate K (1 / real K))) = (13 \<le> K)"
  proof (cases "13 \<le> K")
    case True
    then show ?thesis using entropy_uniform_large [of K] by simp
  next
    case False
    then have "K \<le> 12" by simp
    from entropy_uniform_small [OF \<open>0 < K\<close> this] False show ?thesis by simp
  qed
next
  assume "3 \<le> K \<and> length class_names = K"
  then show "decide class_names (replicate K (1 / real K)) =
      Inr (rejection_result class_names (replicate K (1 / real K)))"
    by (simp add: decide_uniform)
next
  assume "p \<noteq> [] \<and> np_argmax p < length class_names \<and> np_max p < 1 / 2"
  then show "decide class_names p = Inr (rejection_result class_names p)"
    by (simp add: decide_cases rejects_def)
qed

text \<open>
  The claim as stated fails at K = 6: the entropy of the uniform vector of length 6 does
  not exceed 2.5.
\<close>

theorem entropy_uniform_six_counterexample:
  "(6::nat) \<le> 6 \<and> \<not> 5 / 2 < calculate_entropy_threshold (replicate 6 (1 / real 6))"
  using entropy_uniform_small [of 6] by simp

theorem entropy_rejection_threshold_witness:
  "5 / 2 < calculate_entropy_threshold (replicate 13 (1 / real 13))
   \<and> \<not> 5 / 2 < calculate_entropy_threshold (replicate 12 (1 / real 12))
   \<and> decide [''A'', ''B'', ''C'', ''D'', ''E'', NO_GESTURE] (replicate 6 (1 / real 6)) =
       Inr (rejection_result [''A'', ''B'', ''C'', ''D'', ''E'', NO_GESTURE] (replicate 6 (1 / real 6)))
   \<and> decide [''A'', ''B'', NO_GESTURE] [2 / 5, 2 / 5, 1 / 5] =
       Inr (rejection_result [''A'', ''B'', NO_GESTURE] [2 / 5, 2 / 5, 1 / 5])"
proof -
  have a: "np_max [2 / 5, 2 / 5, 1 / 5] < 1 / 2"
    by (simp add: np_max_def)
  have b: "np_argmax [2 / 5, 2 / 5, 1 / 5] < length [''A'', ''B'', NO_GESTURE]"
    by (simp add: np_argmax_def)
  show ?thesis
    using entropy_rejection_threshold [of 13]
      entropy_rejection_threshold [of 12]
      entropy_rejection_threshold [of 6 "[''A'', ''B'', ''C'', ''D'', ''E'', NO_GESTURE]"]
      entropy_rejection_threshold [of 1 "[''A'', ''B'', NO_GESTURE]" "[2 / 5, 2 / 5, 1 / 5]"] a b
    by simp
qed

subsection \<open>Prediction\<close>

lemma predict_loaded_decide:
  assumes "length landmarks = 21" "is_valid_hand_pose landmarks"
    and "extract_features_fixed np landmarks = Inr features"
    and "model (scale_features scaler features) = Inr p"
  shows "predict_loaded np model class_names scaler (Some landmarks) = decide class_names p"
proof -
  have "landmarks \<noteq> []" using assms(1) by auto
  then show ?thesis
    using assms by (simp add: predict_loaded_def)
qed

lemma predict_decide:
  assumes "load_components self fs model_id = Inr ((model, class_names, scaler, validator), self')"
    and "length landmarks = 21" "is_valid_hand_pose landmarks"
    and "extract_features_fixed np landmarks = Inr features"
    and "model (scale_features scaler features) = Inr p"
    and "p \<noteq> []" "np_argmax p < length class_names"
  shows "fst (predict np self fs model_id (Some landmarks)) =
           (if rejects class_names p then Inr (rejection_result class_names p)
            else Inr (accepted_result class_names p))"
proof -
  have "predict_loaded np model class_names scaler (Some landmarks) = decide class_names p"
    using predict_loaded_decide [of landmarks np features model scaler p class_names] assms(2-5)
    by simp
  then show ?thesis
    using assms(1) by (simp add: predict_def decide_cases [OF assms(6,7)])
qed

text \<open>
  Claim C1, as amended. For a model whose components are loaded (from the cache or from
  disk), a set of 21 landmarks that passes the pose pre-check and for which the feature
  extractor returns, and a non-empty probability vector whose arg-max class has a label: if
  the maximum is below 0.5, or the entropy exceeds 2.5, or the arg-max class is
  \<^verbatim>\<open>NO_GESTURE\<close>, \<^verbatim>\<open>predict\<close> returns the rejection result (the fixed label, the raw
  maximum as confidence, the probabilities of the other classes as they are); otherwise it returns the arg-max label with its raw probability, which is
  the maximum, and the renormalised probabilities. Provided the arg-max label is not itself
  the text of the rejection label, the rejection result is returned if and only if one of
  the three conditions holds.
\<close>

theorem predict_rejection_policy:
  assumes "load_components self fs model_id = Inr ((model, class_names, scaler, validator), self')"
    and "length landmarks = 21" "is_valid_hand_pose landmarks"
    and "extract_features_fixed np landmarks = Inr features"
    and "model (scale_features scaler features) = Inr p"
    and "p \<noteq> []" "np_argmax p < length class_names" "list_all (\<lambda>x. 0 \<le> x) p"
  shows "(rejects class_names p \<longrightarrow>
            fst (predict np self fs model_id (Some landmarks)) = Inr (rejection_result class_names p))
         \<and> (\<not> rejects class_names p \<longrightarrow>
            fst (predict np self fs model_id (Some landmarks)) = Inr (accepted_result class_names p))
         \<and> (class_names ! np_argmax p \<noteq> no_clear_gesture \<longrightarrow>
              (fst (predict np self fs model_id (Some landmarks)) = Inr (rejection_result class_names p))
                = rejects class_names p)
         \<and> rejects class_names p =
             (np_max p < 1 / 2 \<or> 5 / 2 < calculate_entropy_threshold p
              \<or> class_names ! np_argmax p = NO_GESTURE)
         \<and> pr_confidence (accepted_result class_names p) = np_max p"
proof -
  have "rejection_result class_names p \<noteq> accepted_result class_names p"
    if "class_names ! np_argmax p \<noteq> no_clear_gesture"
  proof
    assume "rejection_result class_names p = accepted_result class_names p"
    then have "pr_prediction (rejection_result class_names p) = pr_prediction (accepted_result class_names p)"
      by simp
    with that show False
      by (simp add: rejection_result_def accepted_result_def)
  qed
  moreover have "pr_confidence (accepted_result class_names p) = np_max p"
    using nth_np_argmax [OF assms(6)] by (simp add: accepted_result_def)
  ultimately show ?thesis
    using predict_decide [OF assms(1-7)] by (auto simp: rejects_def)
qed

lemma neg_q_ln_q: "0 < q \<Longrightarrow> - (q * ln q) \<le> 1 - (q::real)"
proof -
  assume q: "0 < q"
  then have "ln (1 / q) \<le> 1 / q - 1"
    by (intro ln_le_minus_one) simp
  then have "- ln q \<le> 1 / q - 1"
    using q by (simp add: ln_div)
  then have "q * (- ln q) \<le> q * (1 / q - 1)"
    using q by (intro mult_left_mono) simp_all
  also have "\<dots> = 1 - q"
    using q by (simp add: right_diff_distrib)
  finally show ?thesis by simp
qed

lemma entropy_three:
  assumes "0 \<le> a" "0 \<le> b" "0 \<le> c"
  shows "calculate_entropy_threshold [a, b, c] \<le> 3 - (a + b + c)"
proof -
  define e :: real where "e = 1 / 10 ^ 10"
  have e: "0 < e" by (simp add: e_def)
  have a: "- ((a + e) * ln (a + e)) \<le> 1 - (a + e)"
    using e assms(1) by (intro neg_q_ln_q) simp
  have b: "- ((b + e) * ln (b + e)) \<le> 1 - (b + e)"
    using e assms(2) by (intro neg_q_ln_q) simp
  have c: "- ((c + e) * ln (c + e)) \<le> 1 - (c + e)"
    using e assms(3) by (intro neg_q_ln_q) simp
  have "calculate_entropy_threshold [a, b, c] =
      - ((a + e) * ln (a + e)) + - ((b + e) * ln (b + e)) + - ((c + e) * ln (c + e))"
    by (simp add: calculate_entropy_threshold_def e_def)
  with a b c e show ?thesis by linarith
qed

lemma load_components_cached:
  "load_components (cached_service class_names p) fs ''m'' =
     Inr (((\<lambda>features. Inr p), class_names, create_default_scaler, None), cached_service class_names p)"
  by (simp add: load_components_def cached_service_def)

text \<open>
  The claim as stated fails for a class whose label is the text of the rejection label:
  with the classes A, \<^verbatim>\<open>NO_GESTURE\<close> and that label, and the probabilities 0, 0, 1, none
  of the three conditions holds and \<^verbatim>\<open>predict\<close> still returns exactly the rejection
  result.
\<close>

theorem predict_rejection_iff_counterexample:
  "fst (predict numpy_sequential (cached_service [''A'', NO_GESTURE, no_clear_gesture] [0, 0, 1]) Map.empty ''m'' (Some open_hand))
     = Inr (rejection_result [''A'', NO_GESTURE, no_clear_gesture] [0, 0, 1])
   \<and> \<not> (np_max [0, 0, 1] < 1 / 2 \<or> 5 / 2 < calculate_entropy_threshold [0, 0, 1]
          \<or> [''A'', NO_GESTURE, no_clear_gesture] ! np_argmax [0, 0, 1] = NO_GESTURE)"
proof -
  let ?cn = "[''A'', NO_GESTURE, no_clear_gesture]"
  let ?p = "[0, 0, 1 :: real]"
  have ent: "calculate_entropy_threshold ?p \<le> 2"
    using entropy_three [of 0 0 1] by simp
  have mx: "np_max ?p = 1" and am: "np_argmax ?p = 2"
    by (simp_all add: np_max_def np_argmax_def)
  have lab: "?cn ! 2 = no_clear_gesture" "no_clear_gesture \<noteq> NO_GESTURE"
    by (simp_all add: no_clear_gesture_def NO_GESTURE_def)
  have no: "\<not> rejects ?cn ?p"
    using ent lab by (simp add: rejects_def mx am)
  have fp: "filtered_probs ?cn ?p = [(''A'', 0), (no_clear_gesture, 1)]"
    by (simp add: filtered_probs_def py_dict_def no_clear_gesture_def NO_GESTURE_def)
  have same: "accepted_result ?cn ?p = rejection_result ?cn ?p"
    by (simp add: accepted_result_def rejection_result_def renormalized_def fp mx am lab)
  obtain features where ex: "extract_features_fixed numpy_sequential open_hand = Inr features"
    using extract_open_hand by blast
  have "fst (predict numpy_sequential (cached_service ?cn ?p) Map.empty ''m'' (Some open_hand)) =
          (if rejects ?cn ?p then Inr (rejection_result ?cn ?p) else Inr (accepted_result ?cn ?p))"
    by (rule predict_decide [OF load_components_cached _ _ ex]) (simp_all add: open_hand_valid am)
  with no same show ?thesis
    by (simp add: rejects_def)
qed

theorem predict_rejection_policy_witness:
  "fst (predict numpy_sequential (cached_service [''A'', ''B'', NO_GESTURE] [2 / 5, 2 / 5, 1 / 5]) Map.empty ''m'' (Some open_hand))
     = Inr \<lparr>pr_prediction = no_clear_gesture, pr_confidence = 2 / 5,
            pr_probabilities = [(''A'', 2 / 5), (''B'', 2 / 5)]\<rparr>
   \<and> fst (predict numpy_sequential (cached_service [''A'', ''B'', NO_GESTURE] [9 / 10, 1 / 10, 0]) Map.empty ''m'' (Some open_hand))
     = Inr \<lparr>pr_prediction = ''A'', pr_confidence = 9 / 10,
            pr_probabilities = [(''A'', 9 / 10), (''B'', 1 / 10)]\<rparr>"
proof -
  let ?cn = "[''A'', ''B'', NO_GESTURE]"
  let ?p = "[2 / 5, 2 / 5, 1 / 5 :: real]"
  let ?q = "[9 / 10, 1 / 10, 0 :: real]"
  have mp: "np_max ?p = 2 / 5" and mq: "np_max ?q = 9 / 10"
    and ap: "np_argmax ?p = 0" and aq: "np_argmax ?q = 0"
    by (simp_all add: np_max_def np_argmax_def)
  have "calculate_entropy_threshold ?q \<le> 2"
    using entropy_three [of "9 / 10" "1 / 10" 0] by simp
  then have nq: "\<not> rejects ?cn ?q"
    by (simp add: rejects_def mq aq NO_GESTURE_def)
  have rp: "rejects ?cn ?p"
    by (simp add: rejects_def mp)
  obtain features where ex: "extract_features_fixed numpy_sequential open_hand = Inr features"
    using extract_open_hand by blast
  have fp: "filtered_probs ?cn ?p = [(''A'', 2 / 5), (''B'', 2 / 5)]"
    and fq: "filtered_probs ?cn ?q = [(''A'', 9 / 10), (''B'', 1 / 10)]"
    by (simp_all add: filtered_probs_def py_dict_def NO_GESTURE_def)
  have "fst (predict numpy_sequential (cached_service ?cn ?p) Map.empty ''m'' (Some open_hand)) = Inr (rejection_result ?cn ?p)"
    using predict_rejection_policy [where landmarks = open_hand and p = ?p,
        OF load_components_cached [of ?cn ?p Map.empty] _ _ ex] rp
    by (simp add: open_hand_valid ap)
  moreover have "fst (predict numpy_sequential (cached_service ?cn ?q) Map.empty ''m'' (Some open_hand)) = Inr (accepted_result ?cn ?q)"
    using predict_rejection_policy [where landmarks = open_hand and p = ?q,
        OF load_components_cached [of ?cn ?q Map.empty] _ _ ex] nq
    by (simp add: open_hand_valid aq)
  ultimately show ?thesis
    by (simp add: rejection_result_def accepted_result_def renormalized_def fp fq mp aq)
qed

subsection \<open>Comparison with a target\<close>










subsection \<open>Training and persistence\<close>

lemma persist_failure_keeps_cache:
  "fst (persist self fs env model_id f) = Inl e \<Longrightarrow> fst (snd (persist self fs env model_id f)) = self"
  by (auto simp: persist_def Let_def split: option.splits write_outcome.splits sum.splits)

lemma train_body_failure_keeps_cache:
  "fst (train_body np self fs env model_id training_data) = Inl e \<Longrightarrow>
     fst (snd (train_body np self fs env model_id training_data)) = self"
  by (auto simp: train_body_def persist_failure_keeps_cache split: prod.splits if_splits sum.splits)

lemma train_model_fst:
  "fst (train_model np self fs env model_id training_data) =
     (case fst (train_body np self fs env model_id training_data) of
        Inl e \<Rightarrow> Inl (training_error e) | Inr m \<Rightarrow> Inr m)"
  by (cases "train_body np self fs env model_id training_data")
     (auto simp: train_model_def split: sum.splits)

lemma train_model_snd:
  "snd (train_model np self fs env model_id training_data) =
     snd (train_body np self fs env model_id training_data)"
  by (cases "train_body np self fs env model_id training_data")
     (auto simp: train_model_def split: sum.splits)

lemma train_body_persist:
  assumes "training_data \<noteq> []" "prepare_training_data np training_data = (X, y, labels)"
    and "X \<noteq> []" "2 \<le> length (remdups y)" "fit env X y labels = Inr f"
  shows "train_body np self fs env model_id training_data = persist self fs env model_id f"
  using assms by (simp add: train_body_def)

lemma persist_required_write_fails:
  assumes "makedirs env = None"
    and "write_file env Model_h5 \<noteq> Written \<or> write_file env Label_encoder_json \<noteq> Written"
  shows "\<exists>e. fst (persist self fs env model_id f) = Inl e"
  using assms
  by (auto simp: persist_def Let_def split: write_outcome.splits sum.splits)

lemma persist_required_writes_succeed:
  assumes "makedirs env = None" "write_file env Model_h5 = Written"
    and "write_file env Label_encoder_json = Written" "fit_metrics f = Inr m"
  shows "fst (persist self fs env model_id f) = Inr m"
    and "models (fst (snd (persist self fs env model_id f))) model_id = Some (fit_model f)"
    and "label_encoders (fst (snd (persist self fs env model_id f))) model_id = Some (fit_classes f)"
    and "scalers (fst (snd (persist self fs env model_id f))) model_id = Some (fit_scaler f)"
  using assms by (simp_all add: persist_def Let_def)

lemma persist_model_file_stays:
  assumes "makedirs env = None" "write_file env Model_h5 = Written"
  shows "\<exists>dir. snd (snd (persist self fs env model_id f)) (get_safe_model_path model_id) = Some dir
           \<and> model_h5 dir = Some (Inr (fit_model f))"
  using assms
  by (auto simp: persist_def Let_def split: write_outcome.splits sum.splits)

text \<open>
  Claim C4, as amended. For a training run that reaches the persistence step (samples
  prepared, at least two classes, the fit and \<^verbatim>\<open>makedirs\<close> succeed): if saving the
  classifier (\<^verbatim>\<open>model.h5\<close>) or the label encoder JSON fails, \<^verbatim>\<open>train_model\<close> raises
  "Error training model: ...", returns no metrics and leaves the cache of the service as it
  was. If both are saved, the failures of saving the scaler, the validator, the label encoder
  pickle or the metrics are only printed: \<^verbatim>\<open>train_model\<close> returns the computed metrics
  and caches the new components. A classifier file written before a later failure stays on
  disk. Whenever \<^verbatim>\<open>train_model\<close> raises, the cache is unchanged.
\<close>

theorem train_model_persistence_failures:
  assumes "training_data \<noteq> []" "prepare_training_data np training_data = (X, y, labels)"
    and "X \<noteq> []" "2 \<le> length (remdups y)" "fit env X y labels = Inr f" "makedirs env = None"
  shows "(write_file env Model_h5 \<noteq> Written \<or> write_file env Label_encoder_json \<noteq> Written \<longrightarrow>
            (\<exists>e. fst (train_model np self fs env model_id training_data) = Inl (training_error e))
            \<and> fst (snd (train_model np self fs env model_id training_data)) = self)
         \<and> (write_file env Model_h5 = Written \<and> write_file env Label_encoder_json = Written \<longrightarrow>
              (\<forall>m. fit_metrics f = Inr m \<longrightarrow>
                 fst (train_model np self fs env model_id training_data) = Inr m
                 \<and> models (fst (snd (train_model np self fs env model_id training_data))) model_id
                     = Some (fit_model f)
                 \<and> label_encoders (fst (snd (train_model np self fs env model_id training_data))) model_id
                     = Some (fit_classes f)
                 \<and> scalers (fst (snd (train_model np self fs env model_id training_data))) model_id
                     = Some (fit_scaler f)))
         \<and> (write_file env Model_h5 = Written \<longrightarrow>
              (\<exists>dir. snd (snd (train_model np self fs env model_id training_data)) (get_safe_model_path model_id)
                       = Some dir
                 \<and> model_h5 dir = Some (Inr (fit_model f))))
         \<and> (\<forall>e. fst (train_model np self fs env model_id training_data) = Inl e \<longrightarrow>
               fst (snd (train_model np self fs env model_id training_data)) = self)"
proof -
  have body: "train_body np self fs env model_id training_data = persist self fs env model_id f"
    by (rule train_body_persist [OF assms(1-5)])
  have keep: "fst (snd (train_model np self fs env model_id training_data)) = self"
    if "fst (train_model np self fs env model_id training_data) = Inl e" for e
  proof -
    from that obtain e' where "fst (train_body np self fs env model_id training_data) = Inl e'"
      by (auto simp: train_model_fst split: sum.splits)
    then show ?thesis
      by (simp add: train_model_snd train_body_failure_keeps_cache)
  qed
  have fails: "(\<exists>e. fst (train_model np self fs env model_id training_data) = Inl (training_error e))
            \<and> fst (snd (train_model np self fs env model_id training_data)) = self"
    if w: "write_file env Model_h5 \<noteq> Written \<or> write_file env Label_encoder_json \<noteq> Written"
  proof -
    obtain e where "fst (persist self fs env model_id f) = Inl e"
      using persist_required_write_fails [OF assms(6) w] by blast
    then have "fst (train_model np self fs env model_id training_data) = Inl (training_error e)"
      by (simp add: train_model_fst body)
    then show ?thesis using keep by blast
  qed
  have ok: "fst (train_model np self fs env model_id training_data) = Inr m
       \<and> models (fst (snd (train_model np self fs env model_id training_data))) model_id = Some (fit_model f)
       \<and> label_encoders (fst (snd (train_model np self fs env model_id training_data))) model_id
           = Some (fit_classes f)
       \<and> scalers (fst (snd (train_model np self fs env model_id training_data))) model_id = Some (fit_scaler f)"
    if "write_file env Model_h5 = Written" "write_file env Label_encoder_json = Written"
      "fit_metrics f = Inr m" for m
    using persist_required_writes_succeed [OF assms(6) that, of self fs model_id]
    by (simp add: train_model_fst train_model_snd body)
  have stays: "\<exists>dir. snd (snd (train_model np self fs env model_id training_data)) (get_safe_model_path model_id)
                       = Some dir \<and> model_h5 dir = Some (Inr (fit_model f))"
    if "write_file env Model_h5 = Written"
    using persist_model_file_stays [OF assms(6) that, of self fs model_id f]
    by (simp add: train_model_snd body)
  show ?thesis
    using fails ok stays keep by blast
qed

lemma prepare_sample_valid:
  assumes "length (ts_landmarks sample) = 21" "list_all has_xyz (ts_landmarks sample)"
    and "small_landmarks (ts_landmarks sample)"
  shows "prepare_sample np sample =
           Some ((case extract_features_fixed np (ts_landmarks sample) of
                    Inr features \<Rightarrow> features | Inl e \<Rightarrow> []), ts_label sample)"
proof -
  have "ts_landmarks sample \<noteq> []" using assms(1) by auto
  moreover obtain features where "extract_features_fixed np (ts_landmarks sample) = Inr features"
    using extract_features_fixed_small [OF assms(1,3)] by blast
  ultimately show ?thesis
    using assms(1,2) by (simp add: prepare_sample_def)
qed

lemma prepare_three_samples:
  "prepare_training_data np three_samples = (three_features np, [''A'', ''B'', ''B''], [''A'', ''B''])"
proof -
  have h: "length open_hand = 21" "list_all has_xyz open_hand"
    "length origin_hand = 21" "list_all has_xyz origin_hand"
    "length tenth_hand = 21" "list_all has_xyz tenth_hand"
    by (simp_all add: open_hand_def origin_hand_def tenth_hand_def has_xyz_def list_all_iff
        del: not_None_eq)
  have sm: "small_landmarks open_hand" "small_landmarks origin_hand" "small_landmarks tenth_hand"
    using small_open_hand small_origin_hand small_tenth_hand by simp_all
  have a: "prepare_sample np \<lparr>ts_label = ''A'', ts_landmarks = open_hand\<rparr> =
      Some ((case extract_features_fixed np open_hand of Inr features \<Rightarrow> features | Inl e \<Rightarrow> []), ''A'')"
    using prepare_sample_valid [of "\<lparr>ts_label = ''A'', ts_landmarks = open_hand\<rparr>" np] h(1,2) sm(1)
    by (simp only: training_sample.simps)
  have b: "prepare_sample np \<lparr>ts_label = ''B'', ts_landmarks = origin_hand\<rparr> =
      Some ((case extract_features_fixed np origin_hand of Inr features \<Rightarrow> features | Inl e \<Rightarrow> []), ''B'')"
    using prepare_sample_valid [of "\<lparr>ts_label = ''B'', ts_landmarks = origin_hand\<rparr>" np] h(3,4) sm(2)
    by (simp only: training_sample.simps)
  have c: "prepare_sample np \<lparr>ts_label = ''B'', ts_landmarks = tenth_hand\<rparr> =
      Some ((case extract_features_fixed np tenth_hand of Inr features \<Rightarrow> features | Inl e \<Rightarrow> []), ''B'')"
    using prepare_sample_valid [of "\<lparr>ts_label = ''B'', ts_landmarks = tenth_hand\<rparr>" np] h(5,6) sm(3)
    by (simp only: training_sample.simps)
  show ?thesis
    by (simp add: prepare_training_data_def three_samples_def three_features_def a b c)
qed

text \<open>
  The claim as stated fails when only the scaler cannot be saved: \<^verbatim>\<open>train_model\<close>
  returns metrics and the model is in the cache.
\<close>

theorem train_model_scaler_failure_counterexample:
  "write_file scaler_write_fails Scaler_pkl \<noteq> Written
   \<and> fst (train_model numpy_sequential MLService_init Map.empty scaler_write_fails ''m'' three_samples)
       = Inr \<lparr>accuracy = 3 / 4, totalSamples = 4, trainingTime = 0, trainingHistory = [],
              confusionMatrix = [], classDistribution = []\<rparr>
   \<and> models (fst (snd (train_model numpy_sequential MLService_init Map.empty scaler_write_fails ''m'' three_samples))) ''m''
       \<noteq> None"
proof -
  have body: "train_body numpy_sequential MLService_init Map.empty scaler_write_fails ''m'' three_samples =
      persist MLService_init Map.empty scaler_write_fails ''m'' fitted_example"
    by (rule train_body_persist [OF _ prepare_three_samples])
       (simp_all add: three_samples_def three_features_def scaler_write_fails_def)
  have w: "makedirs scaler_write_fails = None" "write_file scaler_write_fails Model_h5 = Written"
    "write_file scaler_write_fails Label_encoder_json = Written"
    "write_file scaler_write_fails Scaler_pkl \<noteq> Written"
    by (simp_all add: scaler_write_fails_def)
  have m: "fit_metrics fitted_example = Inr \<lparr>accuracy = 3 / 4, totalSamples = 4, trainingTime = 0,
      trainingHistory = [], confusionMatrix = [], classDistribution = []\<rparr>"
    by (simp add: fitted_example_def)
  show ?thesis
    using persist_required_writes_succeed(1,2) [OF w(1-3) m, of MLService_init Map.empty "''m''"] w(4)
    by (simp add: train_model_fst train_model_snd body)
qed

theorem train_model_persistence_failures_witness:
  "fst (train_model numpy_sequential MLService_init Map.empty json_write_fails ''m'' three_samples)
     = Inl (Exception ''Error training model: No space left on device'')
   \<and> fst (snd (train_model numpy_sequential MLService_init Map.empty json_write_fails ''m'' three_samples)) = MLService_init
   \<and> (\<exists>dir. snd (snd (train_model numpy_sequential MLService_init Map.empty json_write_fails ''m'' three_samples)) ''models/m''
          = Some dir \<and> model_h5 dir = Some (Inr (fit_model fitted_example)))
   \<and> fst (train_model numpy_sequential MLService_init Map.empty scaler_write_fails ''m'' three_samples)
       = fit_metrics fitted_example"
proof -
  have f: "fit json_write_fails (three_features numpy_sequential) [''A'', ''B'', ''B''] [''A'', ''B''] = Inr fitted_example"
    "fit scaler_write_fails (three_features numpy_sequential) [''A'', ''B'', ''B''] [''A'', ''B''] = Inr fitted_example"
    by (simp_all add: json_write_fails_def scaler_write_fails_def)
  have body: "train_body numpy_sequential MLService_init Map.empty json_write_fails ''m'' three_samples =
      persist MLService_init Map.empty json_write_fails ''m'' fitted_example"
    by (rule train_body_persist [OF _ prepare_three_samples])
       (simp_all add: three_samples_def three_features_def json_write_fails_def)
  have res: "fst (train_model numpy_sequential MLService_init Map.empty json_write_fails ''m'' three_samples)
     = Inl (Exception ''Error training model: No space left on device'')"
    by (simp only: train_model_fst body)
       (simp add: persist_def json_write_fails_def training_error_def Let_def)
  have ne: "three_samples \<noteq> []" by (simp add: three_samples_def)
  show ?thesis
    using train_model_persistence_failures [OF ne prepare_three_samples _ _ f(1), of MLService_init Map.empty "''m''"]
      train_model_persistence_failures [OF ne prepare_three_samples _ _ f(2), of MLService_init Map.empty "''m''"]
      res
    by (simp add: json_write_fails_def scaler_write_fails_def fitted_example_def get_safe_model_path_def
        MODEL_DIR_def three_features_def)
qed

end
